theory Spec2Isabelle
  imports Complex_Main "HOL-Library.Monad_Syntax"
begin

section \<open>HyRec recombination history (hyrec/history.c)\<close>

text \<open>
  A shallow embedding of \<^verbatim>\<open>history.c\<close>. The C type \<^verbatim>\<open>double\<close> is read as
  \<^typ>\<open>real\<close>: rounding, overflow and NaN are outside this model, and a statement
  about it is one of exact real arithmetic. For the Hubble rate there is a second model,
  \<open>rec_HubbleConstant_d\<close>, in which a result can be an infinity or NaN. \<^verbatim>\<open>exp\<close>, \<^verbatim>\<open>log\<close> and \<^verbatim>\<open>sqrt\<close> are
  \<^const>\<open>exp\<close>, \<^const>\<open>ln\<close> and \<^const>\<open>sqrt\<close>; they agree with the C functions
  where those are defined (positive argument of \<^verbatim>\<open>log\<close>, nonnegative argument of
  \<^verbatim>\<open>sqrt\<close>), and a division agrees with C where the divisor is not zero.
  \<^verbatim>\<open>pow\<close> with a literal integer exponent is a power \<open>x ^ n\<close>; \<^verbatim>\<open>pow\<close> with a
  computed exponent is \<open>x powr y\<close>, which is C's \<^verbatim>\<open>pow\<close> for a positive base.
\<close>

subsection \<open>Cosmological parameters\<close>

text \<open>
  The structure \<^verbatim>\<open>REC_COSMOPARAMS\<close> is declared in a header that is not among the
  sources; its fields are the ones \<^verbatim>\<open>history.c\<close> reads and writes through
  \<^verbatim>\<open>param->\<close>. The counter \<^verbatim>\<open>nz\<close> is a \<^verbatim>\<open>long\<close>.
\<close>

record REC_COSMOPARAMS =
  T0 :: real
  obh2 :: real
  omh2 :: real
  okh2 :: real
  odeh2 :: real
  w0 :: real
  wa :: real
  Y :: real
  Nnueff :: real
  nH0 :: real
  fHe :: real
  zstart :: real
  zend :: real
  dlna :: real
  nz :: int
  p_ann :: real
  alpha :: real
  p_dec :: real

text \<open>
  The nine numbers \<^verbatim>\<open>rec_get_cosmoparam\<close> scans from its input stream, in the order
  of the \<^verbatim>\<open>fscanf\<close> calls. The prompts written to \<^verbatim>\<open>fout\<close> are not modelled.
\<close>

record scanned =
  in_T0 :: real
  in_obh2 :: real
  in_omh2 :: real
  in_okh2 :: real
  in_odeh2 :: real
  in_w0 :: real
  in_wa :: real
  in_Y :: real
  in_Nnueff :: real

text \<open>
  \<^verbatim>\<open>rec_get_cosmoparam\<close> fills the structure it is given: the scanned fields, the two
  derived abundances and the redshift grid. It has no return value and no error path, and
  it leaves the injection parameters of the structure as they were.
\<close>

definition rec_get_cosmoparam :: "scanned \<Rightarrow> REC_COSMOPARAMS \<Rightarrow> REC_COSMOPARAMS" where
  "rec_get_cosmoparam inp param0 =
     (let param = param0\<lparr>T0 := in_T0 inp, obh2 := in_obh2 inp, omh2 := in_omh2 inp,
                         okh2 := in_okh2 inp, odeh2 := in_odeh2 inp, w0 := in_w0 inp,
                         wa := in_wa inp, Y := in_Y inp, Nnueff := in_Nnueff inp\<rparr>;
          param = param\<lparr>nH0 := 11.223846333047 * obh2 param * (1 - Y param)\<rparr>;
          param = param\<lparr>fHe := Y param / (1 - Y param) / 3.97153\<rparr>;
          param = param\<lparr>zstart := 8000\<rparr>;
          param = param\<lparr>zend := 0\<rparr>;
          param = param\<lparr>dlna := 8.49 / 10 ^ 5\<rparr>
      in param\<lparr>nz := \<lfloor>2 + ln ((1 + zstart param) / (1 + zend param)) / dlna param\<rfloor>\<rparr>)"

subsection \<open>Hubble expansion rate\<close>

text \<open>The five densities \<^verbatim>\<open>rho_i[0..4]\<close> of \<^verbatim>\<open>rec_HubbleConstant\<close>.\<close>

definition rho_i :: "REC_COSMOPARAMS \<Rightarrow> real \<Rightarrow> real list" where
  "rho_i param z =
     (let ainv = 1 + z;
          rho0 = omh2 param * ainv * ainv * ainv;
          rho1 = okh2 param * ainv * ainv;
          rho2 = odeh2 param * (ainv powr (3 * (1 + w0 param)))
                   * exp (3 * wa param * (ln ainv - 1 + 1 / ainv));
          ogh2 = 4.48162687719 / 10 ^ 7 * T0 param * T0 param * T0 param * T0 param;
          rho3 = ogh2 * ainv * ainv * ainv * ainv;
          rho4 = 0.227107317660239 * rho3 * Nnueff param
      in [rho0, rho1, rho2, rho3, rho4])"

definition rec_HubbleConstant :: "REC_COSMOPARAMS \<Rightarrow> real \<Rightarrow> real" where
  "rec_HubbleConstant param z =
     (let rho = foldl (+) 0 (rho_i param z)
      in 3.2407792896393 / 10 ^ 18 * sqrt rho)"

subsection \<open>Hubble expansion rate with overflow\<close>

text \<open>
  A second reading of \<^verbatim>\<open>double\<close>, for the question whether \<^verbatim>\<open>rec_HubbleConstant\<close> can
  return NaN: a value is a finite real, one of the two infinities, or NaN. A finite result
  is exact (rounding inside the range is not modelled). A result whose magnitude reaches
  \<open>2 ^ 1024 - 2 ^ 970\<close>, the least that round-to-nearest takes to an infinity, is the
  infinity of its sign; a result whose magnitude is at most \<open>2 powr (- 1075)\<close>, the
  greatest that round-to-nearest takes to zero, is zero. There is one zero, the positive
  one. The operations on infinities and NaN follow IEC 60559, \<^verbatim>\<open>pow\<close> follows
  Annex F of the C standard.
\<close>

datatype dbl = Fin real | PInf | MInf | NaN

definition of_exact :: "real \<Rightarrow> dbl" where
  "of_exact x =
     (if 2 ^ 1024 - 2 ^ 970 \<le> x then PInf
      else if x \<le> - (2 ^ 1024 - 2 ^ 970) then MInf
      else if \<bar>x\<bar> \<le> 1 / 2 ^ 1075 then Fin 0
      else Fin x)"

fun d_neg :: "dbl \<Rightarrow> dbl" where
  "d_neg NaN = NaN"
| "d_neg PInf = MInf"
| "d_neg MInf = PInf"
| "d_neg (Fin a) = Fin (- a)"

fun d_add :: "dbl \<Rightarrow> dbl \<Rightarrow> dbl" where
  "d_add NaN y = NaN"
| "d_add x NaN = NaN"
| "d_add PInf MInf = NaN"
| "d_add MInf PInf = NaN"
| "d_add PInf y = PInf"
| "d_add x PInf = PInf"
| "d_add MInf y = MInf"
| "d_add x MInf = MInf"
| "d_add (Fin a) (Fin b) = of_exact (a + b)"

definition d_sub :: "dbl \<Rightarrow> dbl \<Rightarrow> dbl" where
  "d_sub x y = d_add x (d_neg y)"

fun d_mult :: "dbl \<Rightarrow> dbl \<Rightarrow> dbl" where
  "d_mult NaN y = NaN"
| "d_mult x NaN = NaN"
| "d_mult PInf PInf = PInf"
| "d_mult PInf MInf = MInf"
| "d_mult MInf PInf = MInf"
| "d_mult MInf MInf = PInf"
| "d_mult PInf (Fin b) = (if b = 0 then NaN else if 0 < b then PInf else MInf)"
| "d_mult MInf (Fin b) = (if b = 0 then NaN else if 0 < b then MInf else PInf)"
| "d_mult (Fin a) PInf = (if a = 0 then NaN else if 0 < a then PInf else MInf)"
| "d_mult (Fin a) MInf = (if a = 0 then NaN else if 0 < a then MInf else PInf)"
| "d_mult (Fin a) (Fin b) = of_exact (a * b)"

fun d_div :: "dbl \<Rightarrow> dbl \<Rightarrow> dbl" where
  "d_div NaN y = NaN"
| "d_div x NaN = NaN"
| "d_div PInf PInf = NaN"
| "d_div PInf MInf = NaN"
| "d_div MInf PInf = NaN"
| "d_div MInf MInf = NaN"
| "d_div PInf (Fin b) = (if 0 \<le> b then PInf else MInf)"
| "d_div MInf (Fin b) = (if 0 \<le> b then MInf else PInf)"
| "d_div (Fin a) PInf = Fin 0"
| "d_div (Fin a) MInf = Fin 0"
| "d_div (Fin a) (Fin b) =
     (if b = 0 then (if a = 0 then NaN else if 0 < a then PInf else MInf)
      else of_exact (a / b))"

fun d_exp :: "dbl \<Rightarrow> dbl" where
  "d_exp NaN = NaN"
| "d_exp PInf = PInf"
| "d_exp MInf = Fin 0"
| "d_exp (Fin a) = of_exact (exp a)"

fun d_log :: "dbl \<Rightarrow> dbl" where
  "d_log NaN = NaN"
| "d_log PInf = PInf"
| "d_log MInf = NaN"
| "d_log (Fin a) = (if a < 0 then NaN else if a = 0 then MInf else of_exact (ln a))"

fun d_sqrt :: "dbl \<Rightarrow> dbl" where
  "d_sqrt NaN = NaN"
| "d_sqrt PInf = PInf"
| "d_sqrt MInf = NaN"
| "d_sqrt (Fin a) = (if a < 0 then NaN else of_exact (sqrt a))"

text \<open>\<^verbatim>\<open>pow(x, y)\<close>, by the second argument first: a finite one, NaN, the two infinities.\<close>

fun d_pow :: "dbl \<Rightarrow> dbl \<Rightarrow> dbl" where
  "d_pow x (Fin y) =
     (if y = 0 then Fin 1
      else case x of
             NaN \<Rightarrow> NaN
           | PInf \<Rightarrow> if y < 0 then Fin 0 else PInf
           | MInf \<Rightarrow> if y < 0 then Fin 0
                     else if y \<in> \<int> \<and> odd \<lfloor>y\<rfloor> then MInf else PInf
           | Fin a \<Rightarrow>
               if a = 1 then Fin 1
               else if a = 0 then (if y < 0 then PInf else Fin 0)
               else if 0 < a then of_exact (a powr y)
               else if y \<in> \<int> then
                 of_exact ((if odd \<lfloor>y\<rfloor> then - 1 else 1) * ((- a) powr y))
               else NaN)"
| "d_pow x NaN = (if x = Fin 1 then Fin 1 else NaN)"
| "d_pow x PInf =
     (case x of
        NaN \<Rightarrow> NaN
      | Fin a \<Rightarrow> if \<bar>a\<bar> = 1 then Fin 1 else if \<bar>a\<bar> < 1 then Fin 0 else PInf
      | PInf \<Rightarrow> PInf
      | MInf \<Rightarrow> PInf)"
| "d_pow x MInf =
     (case x of
        NaN \<Rightarrow> NaN
      | Fin a \<Rightarrow> if \<bar>a\<bar> = 1 then Fin 1 else if \<bar>a\<bar> < 1 then PInf else Fin 0
      | PInf \<Rightarrow> Fin 0
      | MInf \<Rightarrow> Fin 0)"

text \<open>
  \<^verbatim>\<open>rec_HubbleConstant\<close> once more, operation by operation in the order in which C
  evaluates them. The fields of the parameter structure and the redshift are finite.
\<close>

definition rho_i_d :: "REC_COSMOPARAMS \<Rightarrow> real \<Rightarrow> dbl list" where
  "rho_i_d param z =
     (let ainv = d_add (Fin 1) (Fin z);
          rho0 = d_mult (d_mult (d_mult (Fin (omh2 param)) ainv) ainv) ainv;
          rho1 = d_mult (d_mult (Fin (okh2 param)) ainv) ainv;
          rho2 = d_mult
                   (d_mult (Fin (odeh2 param))
                      (d_pow ainv (d_mult (Fin 3) (d_add (Fin 1) (Fin (w0 param))))))
                   (d_exp (d_mult (d_mult (Fin 3) (Fin (wa param)))
                             (d_add (d_sub (d_log ainv) (Fin 1)) (d_div (Fin 1) ainv))));
          ogh2 = d_mult (d_mult (d_mult (d_mult (Fin (4.48162687719 / 10 ^ 7))
                   (Fin (T0 param))) (Fin (T0 param))) (Fin (T0 param))) (Fin (T0 param));
          rho3 = d_mult (d_mult (d_mult (d_mult ogh2 ainv) ainv) ainv) ainv;
          rho4 = d_mult (d_mult (Fin 0.227107317660239) rho3) (Fin (Nnueff param))
      in [rho0, rho1, rho2, rho3, rho4])"

definition rec_HubbleConstant_d :: "REC_COSMOPARAMS \<Rightarrow> real \<Rightarrow> dbl" where
  "rec_HubbleConstant_d param z =
     (let rho = foldl d_add (Fin 0) (rho_i_d param z)
      in d_mult (Fin (3.2407792896393 / 10 ^ 18)) (d_sqrt rho))"

text \<open>A value that is a nonnegative number: finite and not below zero, or plus infinity.\<close>

fun nonneg_d :: "dbl \<Rightarrow> bool" where
  "nonneg_d (Fin a) = (0 \<le> a)"
| "nonneg_d PInf = True"
| "nonneg_d MInf = False"
| "nonneg_d NaN = False"

subsection \<open>Energy injection\<close>

text \<open>The three branches of the annihilation parameter, in the order of the source.\<close>

definition p_ann_high :: "REC_COSMOPARAMS \<Rightarrow> real" where
  "p_ann_high param = p_ann param * exp (- alpha param * 0.838490285049671)"

definition p_ann_mid :: "REC_COSMOPARAMS \<Rightarrow> real \<Rightarrow> real" where
  "p_ann_mid param z =
     p_ann param * exp (alpha param * (ln ((1 + z) / 2501) * ln ((1 + z) / 2501)
                                        - 0.838490285049671))"

definition p_ann_low :: "REC_COSMOPARAMS \<Rightarrow> real" where
  "p_ann_low param =
     p_ann param * exp (alpha param * (ln (31 / 2501) * ln (31 / 2501) - 0.838490285049671))"

definition p_annihilation_at_z :: "REC_COSMOPARAMS \<Rightarrow> real \<Rightarrow> real" where
  "p_annihilation_at_z param z =
     (if z > 2500 then p_ann_high param
      else if z > 30 then p_ann_mid param z
      else p_ann_low param)"

definition energy_injection_rate :: "REC_COSMOPARAMS \<Rightarrow> real \<Rightarrow> real" where
  "energy_injection_rate param z =
     (let coeff = 1.932 / 10 ^ 10
      in (omh2 param * (4.827652 / 10 ^ 18)) ^ 2 * (1 + z) ^ 6 * p_annihilation_at_z param z
         + coeff * (1 + z) ^ 3 * p_dec param)"

subsection \<open>Matter temperature\<close>

text \<open>
  Both functions take the redshift as their sixth and seventh parameter and never read it.
\<close>

definition rec_Tmss :: "real \<Rightarrow> real \<Rightarrow> real \<Rightarrow> real \<Rightarrow> real \<Rightarrow> real \<Rightarrow> real \<Rightarrow> real" where
  "rec_Tmss xe Tr H fHe' nH z energy_rate =
     (let k_b = 1.3806503 / 10 ^ 23
      in Tr / (1 + H / (4.91466895548409 / 10 ^ 22) / Tr / Tr / Tr / Tr * (1 + xe + fHe') / xe)
         + 1 / (4.91466895548409 / 10 ^ 22 * Tr ^ 4 * xe) * 2 / (3 * k_b) * (1 + 2 * xe)
             / (3 * nH * 10 ^ 6) * energy_rate)"

definition rec_dTmdlna ::
  "real \<Rightarrow> real \<Rightarrow> real \<Rightarrow> real \<Rightarrow> real \<Rightarrow> real \<Rightarrow> real \<Rightarrow> real \<Rightarrow> real" where
  "rec_dTmdlna xe Tm Tr H fHe' nH z energy_rate =
     (let k_b = 1.3806503 / 10 ^ 23
      in - 2 * Tm
         + 4.91466895548409 / 10 ^ 22 * Tr * Tr * Tr * Tr * xe / (1 + xe + fHe') * (Tr - Tm) / H
         + 2 / (3 * k_b) * (1 + 2 * xe) / (3 * nH * 10 ^ 6) * energy_rate / (1 + xe + fHe') / H)"

subsection \<open>External collaborators\<close>

text \<open>
  The atomic-physics kernels, the Saha and post-Saha solvers and the photon-occupation
  bookkeeping live in other files (\<^verbatim>\<open>helium.c\<close>, \<^verbatim>\<open>hydrogen.c\<close>,
  \<^verbatim>\<open>hyrectools.c\<close>). They are parameters of the model, with the argument lists of
  the calls in \<^verbatim>\<open>history.c\<close>. A result returned through a pointer argument
  (\<^verbatim>\<open>&Delta_xe\<close>) is a second component of the result. The objects that are handed to
  them by pointer and that \<^verbatim>\<open>history.c\<close> never looks into (\<^verbatim>\<open>rate_table\<close>,
  \<^verbatim>\<open>twog_params\<close>, \<^verbatim>\<open>logfminus_hist\<close>, \<^verbatim>\<open>logfminus_Ly_hist\<close>) are one opaque
  value of type \<open>'h\<close>, passed in and returned by every collaborator that receives one of
  them. The macros \<^verbatim>\<open>kBoltz\<close>, \<^verbatim>\<open>cube\<close> and \<^verbatim>\<open>MODEL\<close> are parameters as well.
  So is the memory next to the caller's two arrays, which the function may read and never
  writes: \<open>xe_outside i\<close> and \<open>Tm_outside i\<close> are the values that a read of
  \<^verbatim>\<open>xe_output[i]\<close> and of \<^verbatim>\<open>Tm_output[i]\<close> finds when \<open>i\<close> is not an index of the
  array.
\<close>

datatype model = PEEBLES | RECFAST | EMLA2s2p | OTHER_MODEL

datatype func_select = FUNC_HEI | FUNC_H2G | FUNC_HMLA | FUNC_PEEBLES

record 'h externals =
  xe_outside :: "int \<Rightarrow> real"
  Tm_outside :: "int \<Rightarrow> real"
  kBoltz :: real
  cube :: "real \<Rightarrow> real"
  MODEL :: model
  rec_sahaHeII :: "real \<Rightarrow> real \<Rightarrow> real \<Rightarrow> real \<Rightarrow> real \<times> real"
  xe_PostSahaHe :: "real \<Rightarrow> real \<Rightarrow> real \<Rightarrow> real \<Rightarrow> real \<Rightarrow> real \<times> real"
  rec_saha_xe_H :: "real \<Rightarrow> real \<Rightarrow> real \<Rightarrow> real"
  xe_PostSahaH ::
    "real \<Rightarrow> real \<Rightarrow> real \<Rightarrow> real \<Rightarrow> real \<Rightarrow> int \<Rightarrow> real \<Rightarrow> model \<Rightarrow> real \<Rightarrow> 'h
       \<Rightarrow> (real \<times> real) \<times> 'h"
  update_fminus_Saha ::
    "real \<Rightarrow> real \<Rightarrow> real \<Rightarrow> real \<Rightarrow> real \<Rightarrow> int \<Rightarrow> real \<Rightarrow> int \<Rightarrow> 'h \<Rightarrow> 'h"
  rec_helium_dxedt :: "real \<Rightarrow> real \<Rightarrow> real \<Rightarrow> real \<Rightarrow> real \<Rightarrow> real \<Rightarrow> real"
  rec_HPeebles_dxedlna :: "real \<Rightarrow> real \<Rightarrow> real \<Rightarrow> real \<Rightarrow> real \<Rightarrow> real \<Rightarrow> real \<Rightarrow> real"
  rec_HRecFast_dxedlna :: "real \<Rightarrow> real \<Rightarrow> real \<Rightarrow> real \<Rightarrow> real \<Rightarrow> real \<Rightarrow> real \<Rightarrow> real"
  rec_HMLA_dxedlna ::
    "real \<Rightarrow> real \<Rightarrow> real \<Rightarrow> real \<Rightarrow> real \<Rightarrow> real \<Rightarrow> real \<Rightarrow> 'h \<Rightarrow> real \<times> 'h"
  rec_HMLA_2photon_dxedlna ::
    "real \<Rightarrow> real \<Rightarrow> real \<Rightarrow> real \<Rightarrow> real \<Rightarrow> real \<Rightarrow> real \<Rightarrow> int \<Rightarrow> real \<Rightarrow> real \<Rightarrow> 'h
       \<Rightarrow> real \<times> 'h"

subsection \<open>The multistep integrator\<close>

text \<open>
  The lagged samples that \<^verbatim>\<open>rec_build_history\<close> keeps in local variables and hands to
  the steppers by pointer.
\<close>

record lagged =
  z_prev :: real
  dxedlna_prev :: real
  dTmdlna_prev :: real
  z_prev2 :: real
  dxedlna_prev2 :: real
  dTmdlna_prev2 :: real

text \<open>
  The derivative \<^verbatim>\<open>dxedlna\<close> of \<^verbatim>\<open>rec_get_xe_next1\<close>: the preprocessor chain on
  \<^verbatim>\<open>MODEL\<close>, then the conditional on \<^verbatim>\<open>func_select\<close>. The matter temperature handed
  to the kernels is the steady-state one.
\<close>

definition dxedlna_next1 ::
  "'h externals \<Rightarrow> REC_COSMOPARAMS \<Rightarrow> real \<Rightarrow> real \<Rightarrow> func_select \<Rightarrow> int \<Rightarrow> 'h \<Rightarrow> real \<times> 'h" where
  "dxedlna_next1 E param z1 xe_in fs iz' h =
     (let ainv = 1 + z1;
          Tr = T0 param * ainv;
          nH = nH0 param * ainv * ainv * ainv;
          H = rec_HubbleConstant param z1;
          Tm = rec_Tmss xe_in Tr H (fHe param) (nH / 10 ^ 6) z1 (energy_injection_rate param z1);
          helium = rec_helium_dxedt E xe_in (nH0 param) (T0 param) (fHe param) H z1 / H;
          inj = energy_injection_rate param z1
      in case MODEL E of
           PEEBLES \<Rightarrow>
             (if fs = FUNC_HEI then (helium, h)
              else (rec_HPeebles_dxedlna E xe_in (nH / 10 ^ 6) H (Tm * kBoltz E) (Tr * kBoltz E)
                      z1 inj, h))
         | RECFAST \<Rightarrow>
             (if fs = FUNC_HEI then (helium, h)
              else (rec_HRecFast_dxedlna E xe_in (nH / 10 ^ 6) H (Tm * kBoltz E) (Tr * kBoltz E)
                      z1 inj, h))
         | EMLA2s2p \<Rightarrow>
             (if fs = FUNC_HEI then (helium, h)
              else rec_HMLA_dxedlna E xe_in (nH / 10 ^ 6) H (Tm * kBoltz E) (Tr * kBoltz E)
                     z1 inj h)
         | OTHER_MODEL \<Rightarrow>
             (if fs = FUNC_HEI then (helium, h)
              else if fs = FUNC_H2G then
                rec_HMLA_2photon_dxedlna E xe_in (nH / 10 ^ 6) H (Tm * kBoltz E) (Tr * kBoltz E)
                  (zstart param) (dlna param) iz' z1 inj h
              else rec_HMLA_dxedlna E xe_in (nH / 10 ^ 6) H (Tm * kBoltz E) (Tr * kBoltz E)
                     z1 inj h))"

text \<open>
  \<^verbatim>\<open>rec_get_xe_next1\<close>: the result is \<^verbatim>\<open>*xe_out\<close>, the opaque value as the kernel
  left it, and the lagged samples after the four assignments at the end.
\<close>

definition rec_get_xe_next1 ::
  "'h externals \<Rightarrow> REC_COSMOPARAMS \<Rightarrow> real \<Rightarrow> real \<Rightarrow> func_select \<Rightarrow> int \<Rightarrow> 'h \<Rightarrow> lagged
     \<Rightarrow> real \<times> 'h \<times> lagged" where
  "rec_get_xe_next1 E param z1 xe_in fs iz' h L =
     (let (dxedlna, h') = dxedlna_next1 E param z1 xe_in fs iz' h;
          xe_out = xe_in + dlna param * (1.25 * dxedlna - 0.25 * dxedlna_prev2 L);
          L = L\<lparr>z_prev2 := z_prev L\<rparr>;
          L = L\<lparr>dxedlna_prev2 := dxedlna_prev L\<rparr>;
          L = L\<lparr>z_prev := z1\<rparr>;
          L = L\<lparr>dxedlna_prev := dxedlna\<rparr>
      in (xe_out, h', L))"

text \<open>The derivative \<^verbatim>\<open>dxedlna\<close> of \<^verbatim>\<open>rec_get_xe_next2\<close>, with the evolved \<^verbatim>\<open>Tm_in\<close>.\<close>

definition dxedlna_next2 ::
  "'h externals \<Rightarrow> REC_COSMOPARAMS \<Rightarrow> real \<Rightarrow> real \<Rightarrow> real \<Rightarrow> func_select \<Rightarrow> int \<Rightarrow> 'h
     \<Rightarrow> real \<times> 'h" where
  "dxedlna_next2 E param z1 xe_in Tm_in fs iz' h =
     (let ainv = 1 + z1;
          Tr = T0 param * ainv;
          nH = nH0 param * ainv * ainv * ainv;
          H = rec_HubbleConstant param z1;
          helium = rec_helium_dxedt E xe_in (nH0 param) (T0 param) (fHe param) H z1 / H;
          inj = energy_injection_rate param z1
      in case MODEL E of
           PEEBLES \<Rightarrow>
             (if fs = FUNC_HEI then (helium, h)
              else (rec_HPeebles_dxedlna E xe_in (nH / 10 ^ 6) H (Tm_in * kBoltz E)
                      (Tr * kBoltz E) z1 inj, h))
         | RECFAST \<Rightarrow>
             (if fs = FUNC_HEI then (helium, h)
              else (rec_HRecFast_dxedlna E xe_in (nH / 10 ^ 6) H (Tm_in * kBoltz E)
                      (Tr * kBoltz E) z1 inj, h))
         | EMLA2s2p \<Rightarrow>
             (if fs = FUNC_HEI then (helium, h)
              else rec_HMLA_dxedlna E xe_in (nH / 10 ^ 6) H (Tm_in * kBoltz E) (Tr * kBoltz E)
                     z1 inj h)
         | OTHER_MODEL \<Rightarrow>
             (if fs = FUNC_HEI then (helium, h)
              else if fs = FUNC_H2G then
                rec_HMLA_2photon_dxedlna E xe_in (nH / 10 ^ 6) H (Tm_in * kBoltz E)
                  (Tr * kBoltz E) (zstart param) (dlna param) iz' z1 inj h
              else if fs = FUNC_HMLA then
                rec_HMLA_dxedlna E xe_in (nH / 10 ^ 6) H (Tm_in * kBoltz E) (Tr * kBoltz E)
                  z1 inj h
              else (rec_HPeebles_dxedlna E xe_in (nH / 10 ^ 6) H (Tm_in * kBoltz E)
                      (Tr * kBoltz E) z1 inj, h)))"

text \<open>The derivative \<^verbatim>\<open>dTmdlna\<close> of \<^verbatim>\<open>rec_get_xe_next2\<close>.\<close>

definition dTmdlna_next2 :: "REC_COSMOPARAMS \<Rightarrow> real \<Rightarrow> real \<Rightarrow> real \<Rightarrow> real" where
  "dTmdlna_next2 param z1 xe_in Tm_in =
     (let ainv = 1 + z1;
          Tr = T0 param * ainv;
          nH = nH0 param * ainv * ainv * ainv;
          H = rec_HubbleConstant param z1
      in rec_dTmdlna xe_in Tm_in Tr H (fHe param) (nH / 10 ^ 6) z1
           (energy_injection_rate param z1))"

definition rec_get_xe_next2 ::
  "'h externals \<Rightarrow> REC_COSMOPARAMS \<Rightarrow> real \<Rightarrow> real \<Rightarrow> real \<Rightarrow> func_select \<Rightarrow> int \<Rightarrow> 'h \<Rightarrow> lagged
     \<Rightarrow> real \<times> real \<times> 'h \<times> lagged" where
  "rec_get_xe_next2 E param z1 xe_in Tm_in fs iz' h L =
     (let (dxedlna, h') = dxedlna_next2 E param z1 xe_in Tm_in fs iz' h;
          dTmdlna = dTmdlna_next2 param z1 xe_in Tm_in;
          xe_out = xe_in + dlna param * (1.25 * dxedlna - 0.25 * dxedlna_prev2 L);
          Tm_out = Tm_in + dlna param * (1.25 * dTmdlna - 0.25 * dTmdlna_prev2 L);
          L = L\<lparr>z_prev2 := z_prev L\<rparr>;
          L = L\<lparr>dxedlna_prev2 := dxedlna_prev L\<rparr>;
          L = L\<lparr>dTmdlna_prev2 := dTmdlna_prev L\<rparr>;
          L = L\<lparr>z_prev := z1\<rparr>;
          L = L\<lparr>dxedlna_prev := dxedlna\<rparr>;
          L = L\<lparr>dTmdlna_prev := dTmdlna\<rparr>
      in (xe_out, Tm_out, h', L))"

subsection \<open>The output arrays and the local variables of \<^verbatim>\<open>rec_build_history\<close>\<close>

text \<open>
  \<^verbatim>\<open>xe_output\<close> and \<^verbatim>\<open>Tm_output\<close> are arrays of the caller. A read at an index of the
  array gives the element; a read at any other index gives what the memory there holds,
  and the run goes on. A write is made only at an index of the array: a write anywhere
  else would be the result \<open>None\<close>, which ends the run.
\<close>

definition rd :: "(int \<Rightarrow> real) \<Rightarrow> real list \<Rightarrow> int \<Rightarrow> real" where
  "rd outside a i = (if 0 \<le> i \<and> i < int (length a) then a ! nat i else outside i)"

definition wr :: "real list \<Rightarrow> int \<Rightarrow> real \<Rightarrow> real list option" where
  "wr a i v = (if 0 \<le> i \<and> i < int (length a) then Some (a[nat i := v]) else None)"

text \<open>
  The local variables, the two arrays and the opaque value of the collaborators. The
  fields \<open>xe_written\<close> and \<open>Tm_written\<close> are not in the source: they record, in order,
  the indices at which the arrays were assigned.
\<close>

record 'h locals =
  iz :: int
  z :: real
  Delta_xe :: real
  lag :: lagged
  xe_output :: "real list"
  Tm_output :: "real list"
  hist :: 'h
  xe_written :: "int list"
  Tm_written :: "int list"

definition get_xe :: "'h externals \<Rightarrow> 'h locals \<Rightarrow> int \<Rightarrow> real" where
  "get_xe E s i = rd (xe_outside E) (xe_output s) i"

definition get_Tm :: "'h externals \<Rightarrow> 'h locals \<Rightarrow> int \<Rightarrow> real" where
  "get_Tm E s i = rd (Tm_outside E) (Tm_output s) i"

definition put_xe :: "int \<Rightarrow> real \<Rightarrow> 'h locals \<Rightarrow> 'h locals option" where
  "put_xe i v s =
     do { a \<leftarrow> wr (xe_output s) i v;
          Some (s\<lparr>xe_output := a, xe_written := xe_written s @ [i]\<rparr>) }"

definition put_Tm :: "int \<Rightarrow> real \<Rightarrow> 'h locals \<Rightarrow> 'h locals option" where
  "put_Tm i v s =
     do { a \<leftarrow> wr (Tm_output s) i v;
          Some (s\<lparr>Tm_output := a, Tm_written := Tm_written s @ [i]\<rparr>) }"

text \<open>The redshift of grid index \<open>i\<close>, as the source writes it at every use.\<close>

definition z_grid :: "REC_COSMOPARAMS \<Rightarrow> int \<Rightarrow> real" where
  "z_grid param i = (1 + zstart param) * exp (- dlna param * real_of_int i) - 1"

subsection \<open>The stage loops\<close>

text \<open>
  Every loop of \<^verbatim>\<open>rec_build_history\<close> has the shape
  \<^verbatim>\<open>for (; iz < param->nz && cond; iz++) body\<close>, where no body assigns \<^verbatim>\<open>iz\<close>.
  The test \<open>cond\<close> is evaluated only when \<^verbatim>\<open>iz < nz\<close> holds.
\<close>

function stage_loop ::
  "('h locals \<Rightarrow> bool) \<Rightarrow> ('h locals \<Rightarrow> 'h locals option) \<Rightarrow> int \<Rightarrow> 'h locals
     \<Rightarrow> 'h locals option" where
  "stage_loop cond body n s =
     (if iz s < n \<and> cond s then
        (case body s of
           None \<Rightarrow> None
         | Some s' \<Rightarrow> stage_loop cond body n (s'\<lparr>iz := iz s + 1\<rparr>))
      else Some s)"
  by pat_completeness auto
termination
  by (relation "measure (\<lambda>(cond, body, n, s). nat (n - iz s))") auto

text \<open>Stage 1, He II + III Saha phase.\<close>

definition stage1_body :: "'h externals \<Rightarrow> REC_COSMOPARAMS \<Rightarrow> 'h locals \<Rightarrow> 'h locals option" where
  "stage1_body E param s =
     do { let s = s\<lparr>z := z_grid param (iz s)\<rparr>;
          let (xe, d) = rec_sahaHeII E (nH0 param) (T0 param) (fHe param) (z s);
          let s = s\<lparr>Delta_xe := d\<rparr>;
          s \<leftarrow> put_xe (iz s) xe s;
          put_Tm (iz s) (T0 param * (1 + z s)) s }"

definition stage1 :: "'h externals \<Rightarrow> REC_COSMOPARAMS \<Rightarrow> 'h locals \<Rightarrow> 'h locals option" where
  "stage1 E param s =
     stage_loop (\<lambda>s. Delta_xe s > 1 / 10 ^ 9) (stage1_body E param) (nz param)
       (s\<lparr>Delta_xe := 1, iz := 0\<rparr>)"

text \<open>Stage 2, He I + II post-Saha phase.\<close>

definition stage2_body :: "'h externals \<Rightarrow> REC_COSMOPARAMS \<Rightarrow> 'h locals \<Rightarrow> 'h locals option" where
  "stage2_body E param s =
     do { let s = s\<lparr>z := z_grid param (iz s)\<rparr>;
          let (xe, d) = xe_PostSahaHe E (nH0 param) (T0 param) (fHe param)
                          (rec_HubbleConstant param (z s)) (z s);
          let s = s\<lparr>Delta_xe := d\<rparr>;
          s \<leftarrow> put_xe (iz s) xe s;
          put_Tm (iz s) (T0 param * (1 + z s)) s }"

definition stage2 :: "'h externals \<Rightarrow> REC_COSMOPARAMS \<Rightarrow> 'h locals \<Rightarrow> 'h locals option" where
  "stage2 E param s =
     stage_loop (\<lambda>s. Delta_xe s < 5 / 10 ^ 4) (stage2_body E param) (nz param)
       (s\<lparr>Delta_xe := 0\<rparr>)"

text \<open>
  The seeding of the lagged \<^verbatim>\<open>xe\<close> samples, which the source writes out twice: before
  the loop of stage 3 and before the loop of stage 5. It only reads.
\<close>

definition seed_xe :: "'h externals \<Rightarrow> REC_COSMOPARAMS \<Rightarrow> 'h locals \<Rightarrow> 'h locals" where
  "seed_xe E param s =
     (let zp2 = z_grid param (iz s - 3);
          dp2 = (get_xe E s (iz s - 2) - get_xe E s (iz s - 4)) / 2 / dlna param;
          zp = z_grid param (iz s - 2);
          dp = (get_xe E s (iz s - 1) - get_xe E s (iz s - 3)) / 2 / dlna param
      in s\<lparr>lag := (lag s)\<lparr>z_prev2 := zp2, dxedlna_prev2 := dp2,
                            z_prev := zp, dxedlna_prev := dp\<rparr>\<rparr>)"

text \<open>Stage 3, helium recombination with \<^verbatim>\<open>Tm\<close> fixed to the steady state.\<close>

definition stage3_body :: "'h externals \<Rightarrow> REC_COSMOPARAMS \<Rightarrow> 'h locals \<Rightarrow> 'h locals option" where
  "stage3_body E param s =
     do { let (xe_out, h, L) =
                rec_get_xe_next1 E param (z s) (get_xe E s (iz s - 1)) FUNC_HEI (iz s - 1)
                  (hist s) (lag s);
          s \<leftarrow> put_xe (iz s) xe_out (s\<lparr>hist := h, lag := L\<rparr>);
          let s = s\<lparr>z := z_grid param (iz s)\<rparr>;
          s \<leftarrow> put_Tm (iz s)
                 (rec_Tmss (get_xe E s (iz s)) (T0 param * (1 + z s))
                    (rec_HubbleConstant param (z s)) (fHe param)
                    (nH0 param * cube E (1 + z s)) (z_prev2 (lag s))
                    (energy_injection_rate param (z s))) s;
          let s = s\<lparr>hist := update_fminus_Saha E (get_xe E s (iz s))
                               (T0 param * (1 + z s) * kBoltz E)
                               (nH0 param * cube E (1 + z s) / 10 ^ 6) (zstart param)
                               (dlna param) (iz s) (z s) 0 (hist s)\<rparr>;
          Some (s\<lparr>Delta_xe :=
                    \<bar>get_xe E s (iz s) - rec_saha_xe_H E (nH0 param) (T0 param) (z s)\<bar>\<rparr>) }"

definition stage3 :: "'h externals \<Rightarrow> REC_COSMOPARAMS \<Rightarrow> 'h locals \<Rightarrow> 'h locals option" where
  "stage3 E param s =
     stage_loop (\<lambda>s. Delta_xe s > 1 / 10 ^ 4 \<or> z s > 1650) (stage3_body E param) (nz param)
       ((seed_xe E param s)\<lparr>Delta_xe := 1\<rparr>)"

text \<open>Stage 4, hydrogen post-Saha phase.\<close>

definition stage4_body :: "'h externals \<Rightarrow> REC_COSMOPARAMS \<Rightarrow> 'h locals \<Rightarrow> 'h locals option" where
  "stage4_body E param s =
     do { let s = s\<lparr>z := z_grid param (iz s)\<rparr>;
          let H = rec_HubbleConstant param (z s);
          let ((xe, d), h) =
                xe_PostSahaH E (nH0 param * cube E (1 + z s) / 10 ^ 6) H
                  (kBoltz E * T0 param * (1 + z s)) (zstart param) (dlna param) (iz s) (z s)
                  (MODEL E) (energy_injection_rate param (z s)) (hist s);
          s \<leftarrow> put_xe (iz s) xe (s\<lparr>hist := h, Delta_xe := d\<rparr>);
          put_Tm (iz s)
            (rec_Tmss (get_xe E s (iz s)) (T0 param * (1 + z s)) H (fHe param)
               (nH0 param * cube E (1 + z s)) (z_prev2 (lag s))
               (energy_injection_rate param (z s))) s }"

definition stage4 :: "'h externals \<Rightarrow> REC_COSMOPARAMS \<Rightarrow> 'h locals \<Rightarrow> 'h locals option" where
  "stage4 E param s =
     stage_loop (\<lambda>s. Delta_xe s < 5 / 10 ^ 5) (stage4_body E param) (nz param)
       (s\<lparr>Delta_xe := 0\<rparr>)"

text \<open>Stage 5, hydrogen recombination with two-photon processes, \<^verbatim>\<open>Tm\<close> steady.\<close>

definition stage5_cond :: "'h externals \<Rightarrow> REC_COSMOPARAMS \<Rightarrow> 'h locals \<Rightarrow> bool" where
  "stage5_cond E param s =
     (1 - get_Tm E s (iz s - 1) / T0 param / (1 + z s) < 5 / 10 ^ 4 \<and> z s > 700)"

definition stage5_body :: "'h externals \<Rightarrow> REC_COSMOPARAMS \<Rightarrow> 'h locals \<Rightarrow> 'h locals option" where
  "stage5_body E param s =
     do { let (xe_out, h, L) =
                rec_get_xe_next1 E param (z s) (get_xe E s (iz s - 1)) FUNC_H2G (iz s - 1)
                  (hist s) (lag s);
          s \<leftarrow> put_xe (iz s) xe_out (s\<lparr>hist := h, lag := L\<rparr>);
          let s = s\<lparr>z := z_grid param (iz s)\<rparr>;
          put_Tm (iz s)
            (rec_Tmss (get_xe E s (iz s)) (T0 param * (1 + z s))
               (rec_HubbleConstant param (z s)) (fHe param)
               (nH0 param * cube E (1 + z s) / 10 ^ 6) (z_prev2 (lag s))
               (energy_injection_rate param (z s))) s }"

definition stage5 :: "'h externals \<Rightarrow> REC_COSMOPARAMS \<Rightarrow> 'h locals \<Rightarrow> 'h locals option" where
  "stage5 E param s =
     stage_loop (stage5_cond E param) (stage5_body E param) (nz param) (seed_xe E param s)"

text \<open>
  The seeding of the lagged \<^verbatim>\<open>Tm\<close> samples before the loop of stage 6: two calls of
  \<^verbatim>\<open>rec_dTmdlna\<close> on stored history. It only reads.
\<close>

definition seed_Tm :: "'h externals \<Rightarrow> REC_COSMOPARAMS \<Rightarrow> 'h locals \<Rightarrow> 'h locals" where
  "seed_Tm E param s =
     (let dT2 = rec_dTmdlna (get_xe E s (iz s - 3)) (get_Tm E s (iz s - 3))
                  (T0 param * (1 + z_prev2 (lag s)))
                  (rec_HubbleConstant param (z_prev2 (lag s))) (fHe param)
                  (nH0 param * cube E (1 + z s)) (z_prev2 (lag s))
                  (energy_injection_rate param (z_prev2 (lag s)));
          s = s\<lparr>lag := (lag s)\<lparr>dTmdlna_prev2 := dT2\<rparr>\<rparr>;
          dT1 = rec_dTmdlna (get_xe E s (iz s - 2)) (get_Tm E s (iz s - 2))
                  (T0 param * (1 + z_prev (lag s)))
                  (rec_HubbleConstant param (z_prev (lag s))) (fHe param)
                  (nH0 param * cube E (1 + z s)) (z_prev (lag s))
                  (energy_injection_rate param (z_prev (lag s)))
      in s\<lparr>lag := (lag s)\<lparr>dTmdlna_prev := dT1\<rparr>\<rparr>)"

text \<open>
  Stages 6, 7 and 8 have the same body up to the mechanism tag handed to
  \<^verbatim>\<open>rec_get_xe_next2\<close>.
\<close>

definition next2_body ::
  "func_select \<Rightarrow> 'h externals \<Rightarrow> REC_COSMOPARAMS \<Rightarrow> 'h locals \<Rightarrow> 'h locals option" where
  "next2_body fs E param s =
     do { let (xe_out, Tm_out, h, L) =
                rec_get_xe_next2 E param (z s) (get_xe E s (iz s - 1)) (get_Tm E s (iz s - 1))
                  fs (iz s - 1) (hist s) (lag s);
          s \<leftarrow> put_xe (iz s) xe_out (s\<lparr>hist := h, lag := L\<rparr>);
          s \<leftarrow> put_Tm (iz s) Tm_out s;
          Some (s\<lparr>z := z_grid param (iz s)\<rparr>) }"

definition stage6 :: "'h externals \<Rightarrow> REC_COSMOPARAMS \<Rightarrow> 'h locals \<Rightarrow> 'h locals option" where
  "stage6 E param s =
     stage_loop (\<lambda>s. z s > 700) (next2_body FUNC_H2G E param) (nz param) (seed_Tm E param s)"

definition stage7 :: "'h externals \<Rightarrow> REC_COSMOPARAMS \<Rightarrow> 'h locals \<Rightarrow> 'h locals option" where
  "stage7 E param s =
     stage_loop (\<lambda>s. z s > 20) (next2_body FUNC_HMLA E param) (nz param) s"

definition stage8 :: "'h externals \<Rightarrow> REC_COSMOPARAMS \<Rightarrow> 'h locals \<Rightarrow> 'h locals option" where
  "stage8 E param s =
     stage_loop (\<lambda>s. True) (next2_body FUNC_PEEBLES E param) (nz param) s"

subsection \<open>Building the history\<close>

text \<open>
  The state in which stage 1 starts. The arrays are the caller's; \<open>h0\<close> is the opaque
  value after the allocations at the top of the function; the lagged samples are
  uninitialised locals, whose content \<open>L0\<close> is given from outside.
\<close>

definition init_locals :: "REC_COSMOPARAMS \<Rightarrow> real list \<Rightarrow> real list \<Rightarrow> 'h \<Rightarrow> lagged \<Rightarrow> 'h locals" where
  "init_locals param xe0 Tm0 h0 L0 =
     \<lparr>iz = 0, z = zstart param, Delta_xe = 1, lag = L0, xe_output = xe0, Tm_output = Tm0,
      hist = h0, xe_written = [], Tm_written = []\<rparr>"

text \<open>The two Saha stages, after which the first seeding takes place.\<close>

definition saha_stages ::
  "'h externals \<Rightarrow> REC_COSMOPARAMS \<Rightarrow> real list \<Rightarrow> real list \<Rightarrow> 'h \<Rightarrow> lagged \<Rightarrow> 'h locals option" where
  "saha_stages E param xe0 Tm0 h0 L0 =
     do { s \<leftarrow> stage1 E param (init_locals param xe0 Tm0 h0 L0);
          stage2 E param s }"

text \<open>The run up to the end of stage 5.\<close>

definition steady_Tm_stages ::
  "'h externals \<Rightarrow> REC_COSMOPARAMS \<Rightarrow> real list \<Rightarrow> real list \<Rightarrow> 'h \<Rightarrow> lagged \<Rightarrow> 'h locals option" where
  "steady_Tm_stages E param xe0 Tm0 h0 L0 =
     do { s \<leftarrow> saha_stages E param xe0 Tm0 h0 L0;
          s \<leftarrow> stage3 E param s;
          s \<leftarrow> stage4 E param s;
          stage5 E param s }"


subsection \<open>Successive calls of the stepper\<close>

text \<open>
  \<open>n\<close> successive calls of \<^verbatim>\<open>rec_get_xe_next1\<close>, as the loops of stages 3 and 5 make
  them: each call takes the \<^verbatim>\<open>*xe_out\<close> of the call before as its \<^verbatim>\<open>xe_in\<close> and finds
  the lagged samples as that call left them. Call number \<open>j\<close> is made at redshift
  \<open>zs j\<close> with index \<open>i0 + j\<close>.
\<close>

fun next1_repeated ::
  "'h externals \<Rightarrow> REC_COSMOPARAMS \<Rightarrow> func_select \<Rightarrow> (nat \<Rightarrow> real) \<Rightarrow> int \<Rightarrow> nat
     \<Rightarrow> real \<times> 'h \<times> lagged \<Rightarrow> real \<times> 'h \<times> lagged" where
  "next1_repeated E param fs zs i0 0 st = st"
| "next1_repeated E param fs zs i0 (Suc n) st =
     (case next1_repeated E param fs zs i0 n st of
        (xe, h, L) \<Rightarrow> rec_get_xe_next1 E param (zs n) xe fs (i0 + int n) h L)"

subsection \<open>Concrete inputs\<close>

text \<open>
  The canonical parameters: a zeroed structure (no annihilation, no decay) filled by
  \<^verbatim>\<open>rec_get_cosmoparam\<close> from the canonical input.
\<close>

definition zeroed_param :: REC_COSMOPARAMS where
  "zeroed_param =
     \<lparr>T0 = 0, obh2 = 0, omh2 = 0, okh2 = 0, odeh2 = 0, w0 = 0, wa = 0, Y = 0, Nnueff = 0,
      nH0 = 0, fHe = 0, zstart = 0, zend = 0, dlna = 0, nz = 0, p_ann = 0, alpha = 0,
      p_dec = 0\<rparr>"

definition canonical_scanned :: scanned where
  "canonical_scanned =
     \<lparr>in_T0 = 2.726, in_obh2 = 0.022, in_omh2 = 0.14, in_okh2 = 0, in_odeh2 = 0.31,
      in_w0 = - 1, in_wa = 0, in_Y = 0.24, in_Nnueff = 3.046\<rparr>"

definition canonical_param :: REC_COSMOPARAMS where
  "canonical_param = rec_get_cosmoparam canonical_scanned zeroed_param"

text \<open>An input with a negative temperature, negative densities and a helium fraction above one.\<close>

definition unphysical_scanned :: scanned where
  "unphysical_scanned =
     \<lparr>in_T0 = - 1, in_obh2 = - 1, in_omh2 = - 1, in_okh2 = - 1, in_odeh2 = - 1,
      in_w0 = - 1, in_wa = 0, in_Y = 3 / 2, in_Nnueff = 3.046\<rparr>"

text \<open>The canonical parameters with a dark-energy equation of state that varies in time.\<close>

definition cpl_param :: REC_COSMOPARAMS where
  "cpl_param = canonical_param\<lparr>wa := 1\<rparr>"

text \<open>
  The canonical parameters without dark energy and with a stiff equation of state
  \<open>w0 = 40\<close>.
\<close>

definition stiff_param :: REC_COSMOPARAMS where
  "stiff_param = canonical_param\<lparr>odeh2 := 0, w0 := 40\<rparr>"

text \<open>The canonical parameters on a grid of five points.\<close>

definition short_param :: REC_COSMOPARAMS where
  "short_param = canonical_param\<lparr>nz := 5\<rparr>"

text \<open>
  Collaborators that return fixed values: both helium Saha solvers return \<open>xe = 1\<close> with
  the given departures, every hydrogen kernel returns the derivative \<open>k\<close>, the opaque
  value (here of type \<^typ>\<open>unit\<close>) is left alone, and the memory next to the arrays
  holds zeros.
\<close>

definition fixed_externals :: "real \<Rightarrow> real \<Rightarrow> real \<Rightarrow> unit externals" where
  "fixed_externals d1 d2 k =
     \<lparr>xe_outside = (\<lambda>i. 0),
      Tm_outside = (\<lambda>i. 0),
      kBoltz = 8.617343 / 10 ^ 5,
      cube = (\<lambda>x. x * x * x),
      MODEL = OTHER_MODEL,
      rec_sahaHeII = (\<lambda>nH0' T0' fHe' z'. (1, d1)),
      xe_PostSahaHe = (\<lambda>nH0' T0' fHe' H z'. (1, d2)),
      rec_saha_xe_H = (\<lambda>nH0' T0' z'. 1),
      xe_PostSahaH = (\<lambda>nH H T zs' dl i z' m e h. ((1, 1), h)),
      update_fminus_Saha = (\<lambda>xe T nH zs' dl i z' f h. h),
      rec_helium_dxedt = (\<lambda>xe nH0' T0' fHe' H z'. 0),
      rec_HPeebles_dxedlna = (\<lambda>xe nH H Tm Tr z' e. k),
      rec_HRecFast_dxedlna = (\<lambda>xe nH H Tm Tr z' e. k),
      rec_HMLA_dxedlna = (\<lambda>xe nH H Tm Tr z' e h. (k, h)),
      rec_HMLA_2photon_dxedlna = (\<lambda>xe nH H Tm Tr zs' dl i z' e h. (k, h))\<rparr>"

definition zero_lagged :: lagged where
  "zero_lagged =
     \<lparr>z_prev = 0, dxedlna_prev = 0, dTmdlna_prev = 0, z_prev2 = 0, dxedlna_prev2 = 0,
      dTmdlna_prev2 = 0\<rparr>"

text \<open>
  A run on the five-point grid in which the departure returned by the helium Saha solver
  stays at one: stage 1 fills the whole grid, no later loop iterates, and the run arrives
  at the loop of stage 6 in the state \<open>short_stage6_entry\<close>.
\<close>

definition short_arrays :: "real list" where
  "short_arrays = [0, 0, 0, 0, 0]"

definition short_Tm :: "int \<Rightarrow> real" where
  "short_Tm i = T0 short_param * (1 + z_grid short_param i)"

definition short_stage6_entry :: "unit locals" where
  "short_stage6_entry =
     \<lparr>iz = 5, z = z_grid short_param 4, Delta_xe = 0,
      lag = \<lparr>z_prev = z_grid short_param 3, dxedlna_prev = 0,
             dTmdlna_prev = - 2 * short_Tm 3,
             z_prev2 = z_grid short_param 2, dxedlna_prev2 = 0,
             dTmdlna_prev2 = - 2 * short_Tm 2\<rparr>,
      xe_output = [1, 1, 1, 1, 1],
      Tm_output = [short_Tm 0, short_Tm 1, short_Tm 2, short_Tm 3, short_Tm 4],
      hist = (), xe_written = [0, 1, 2, 3, 4], Tm_written = [0, 1, 2, 3, 4]\<rparr>"

subsection \<open>The invariant of the stage loops\<close>


section \<open>Properties\<close>

subsection \<open>Auxiliary facts\<close>

declare stage_loop.simps [simp del]

lemma stage_loop_done: "\<not> iz s < n \<Longrightarrow> stage_loop cond body n s = Some s"
  by (simp add: stage_loop.simps)


lemma canonical_fields:
  "T0 canonical_param = 2.726" "omh2 canonical_param = 0.14" "okh2 canonical_param = 0"
  "odeh2 canonical_param = 0.31" "w0 canonical_param = - 1" "wa canonical_param = 0"
  "Nnueff canonical_param = 3.046" "zstart canonical_param = 8000" "zend canonical_param = 0"
  "dlna canonical_param = 8.49 / 10 ^ 5" "p_ann canonical_param = 0" "p_dec canonical_param = 0"
  by (simp_all add: canonical_param_def rec_get_cosmoparam_def Let_def canonical_scanned_def
      zeroed_param_def)

lemma short_param_fields:
  "nz short_param = 5" "T0 short_param = 2.726" "dlna short_param = 8.49 / 10 ^ 5"
  "zstart short_param = 8000" "p_ann short_param = 0" "p_dec short_param = 0"
  by (simp_all add: short_param_def canonical_fields)

subsection \<open>The multistep update\<close>

text \<open>
  Claim C1. Every call of \<^verbatim>\<open>rec_get_xe_next1\<close> and of \<^verbatim>\<open>rec_get_xe_next2\<close> returns
  \<open>y + dlna * (1.25 * f - 0.25 * f2)\<close>. Here \<open>y\<close> is the value handed in. \<open>f\<close> is
  the derivative at the current point: for \<^verbatim>\<open>xe\<close> the kernel that \<^verbatim>\<open>MODEL\<close> and the
  mechanism tag select, called with \<^verbatim>\<open>xe_in\<close>, the Hubble rate, the radiation
  temperature, the matter temperature (the steady-state one in \<^verbatim>\<open>rec_get_xe_next1\<close>,
  \<^verbatim>\<open>Tm_in\<close> in \<^verbatim>\<open>rec_get_xe_next2\<close>) and the injection rate at \<^verbatim>\<open>z1\<close>; for
  \<^verbatim>\<open>Tm\<close> it is \<^verbatim>\<open>rec_dTmdlna\<close> at \<^verbatim>\<open>xe_in\<close>, \<^verbatim>\<open>Tm_in\<close> and \<^verbatim>\<open>z1\<close>. \<open>f2\<close> is
  the stored sample \<^verbatim>\<open>*dxedlna_prev2\<close> (for \<^verbatim>\<open>Tm\<close>: \<^verbatim>\<open>*dTmdlna_prev2\<close>). The call
  shifts the stored samples: \<open>f\<close> becomes the newer sample and the newer sample becomes
  the older one, so the older sample of a call is the derivative evaluated two calls
  before.
\<close>

theorem multistep_update:
  "(let Tr = T0 param * (1 + z1);
        nH = nH0 param * (1 + z1) * (1 + z1) * (1 + z1);
        H = rec_HubbleConstant param z1;
        inj = energy_injection_rate param z1;
        Tm = rec_Tmss xe_in Tr H (fHe param) (nH / 10 ^ 6) z1 inj;
        f = (if fs = FUNC_HEI
             then rec_helium_dxedt E xe_in (nH0 param) (T0 param) (fHe param) H z1 / H
             else case MODEL E of
                    PEEBLES \<Rightarrow> rec_HPeebles_dxedlna E xe_in (nH / 10 ^ 6) H (Tm * kBoltz E)
                                 (Tr * kBoltz E) z1 inj
                  | RECFAST \<Rightarrow> rec_HRecFast_dxedlna E xe_in (nH / 10 ^ 6) H (Tm * kBoltz E)
                                 (Tr * kBoltz E) z1 inj
                  | EMLA2s2p \<Rightarrow> fst (rec_HMLA_dxedlna E xe_in (nH / 10 ^ 6) H (Tm * kBoltz E)
                                       (Tr * kBoltz E) z1 inj h)
                  | OTHER_MODEL \<Rightarrow>
                      if fs = FUNC_H2G
                      then fst (rec_HMLA_2photon_dxedlna E xe_in (nH / 10 ^ 6) H
                                  (Tm * kBoltz E) (Tr * kBoltz E) (zstart param) (dlna param)
                                  i z1 inj h)
                      else fst (rec_HMLA_dxedlna E xe_in (nH / 10 ^ 6) H (Tm * kBoltz E)
                                  (Tr * kBoltz E) z1 inj h));
        r = rec_get_xe_next1 E param z1 xe_in fs i h L
    in fst r = xe_in + dlna param * (1.25 * f - 0.25 * dxedlna_prev2 L)
       \<and> dxedlna_prev (snd (snd r)) = f
       \<and> dxedlna_prev2 (snd (snd r)) = dxedlna_prev L
       \<and> z_prev (snd (snd r)) = z1
       \<and> z_prev2 (snd (snd r)) = z_prev L)
   \<and> (let Tr = T0 param * (1 + z1);
          nH = nH0 param * (1 + z1) * (1 + z1) * (1 + z1);
          H = rec_HubbleConstant param z1;
          inj = energy_injection_rate param z1;
          f = (if fs = FUNC_HEI
               then rec_helium_dxedt E xe_in (nH0 param) (T0 param) (fHe param) H z1 / H
               else case MODEL E of
                      PEEBLES \<Rightarrow> rec_HPeebles_dxedlna E xe_in (nH / 10 ^ 6) H
                                   (Tm_in * kBoltz E) (Tr * kBoltz E) z1 inj
                    | RECFAST \<Rightarrow> rec_HRecFast_dxedlna E xe_in (nH / 10 ^ 6) H
                                   (Tm_in * kBoltz E) (Tr * kBoltz E) z1 inj
                    | EMLA2s2p \<Rightarrow> fst (rec_HMLA_dxedlna E xe_in (nH / 10 ^ 6) H
                                         (Tm_in * kBoltz E) (Tr * kBoltz E) z1 inj h)
                    | OTHER_MODEL \<Rightarrow>
                        if fs = FUNC_H2G
                        then fst (rec_HMLA_2photon_dxedlna E xe_in (nH / 10 ^ 6) H
                                    (Tm_in * kBoltz E) (Tr * kBoltz E) (zstart param)
                                    (dlna param) i z1 inj h)
                        else if fs = FUNC_HMLA
                        then fst (rec_HMLA_dxedlna E xe_in (nH / 10 ^ 6) H (Tm_in * kBoltz E)
                                    (Tr * kBoltz E) z1 inj h)
                        else rec_HPeebles_dxedlna E xe_in (nH / 10 ^ 6) H (Tm_in * kBoltz E)
                               (Tr * kBoltz E) z1 inj);
          g = rec_dTmdlna xe_in Tm_in Tr H (fHe param) (nH / 10 ^ 6) z1 inj;
          r = rec_get_xe_next2 E param z1 xe_in Tm_in fs i h L
      in fst r = xe_in + dlna param * (1.25 * f - 0.25 * dxedlna_prev2 L)
         \<and> fst (snd r) = Tm_in + dlna param * (1.25 * g - 0.25 * dTmdlna_prev2 L)
         \<and> dxedlna_prev (snd (snd (snd r))) = f
         \<and> dTmdlna_prev (snd (snd (snd r))) = g
         \<and> dxedlna_prev2 (snd (snd (snd r))) = dxedlna_prev L
         \<and> dTmdlna_prev2 (snd (snd (snd r))) = dTmdlna_prev L
         \<and> z_prev (snd (snd (snd r))) = z1
         \<and> z_prev2 (snd (snd (snd r))) = z_prev L)"
  by (simp add: rec_get_xe_next1_def rec_get_xe_next2_def dxedlna_next1_def dxedlna_next2_def
      dTmdlna_next2_def Let_def split_beta split: model.splits)

subsection \<open>Constant derivative\<close>

lemma next1_repeated_constant:
  assumes "\<And>z1 x i h. fst (dxedlna_next1 E param z1 x fs i h) = k"
    and "dxedlna_prev L = k" and "dxedlna_prev2 L = k"
  shows "fst (next1_repeated E param fs zs i0 n (y0, h0, L)) = y0 + k * real n * dlna param
         \<and> dxedlna_prev (snd (snd (next1_repeated E param fs zs i0 n (y0, h0, L)))) = k
         \<and> dxedlna_prev2 (snd (snd (next1_repeated E param fs zs i0 n (y0, h0, L)))) = k"
proof (induction n)
  case 0
  show ?case using assms by simp
next
  case (Suc n)
  obtain xe h L' where st: "next1_repeated E param fs zs i0 n (y0, h0, L) = (xe, h, L')"
    by (cases "next1_repeated E param fs zs i0 n (y0, h0, L)") auto
  from Suc st have xe: "xe = y0 + k * real n * dlna param"
    and L': "dxedlna_prev L' = k" "dxedlna_prev2 L' = k" by simp_all
  have d: "fst (dxedlna_next1 E param (zs n) xe fs (i0 + int n) h) = k" by (rule assms(1))
  show ?case
    using d xe L' by (simp add: st rec_get_xe_next1_def Let_def split_beta algebra_simps)
qed

text \<open>
  Claim C8. A step whose current derivative and whose older stored sample both equal
  \<open>k\<close> adds \<open>k * dlna\<close>; when the kernel returns the derivative \<open>k\<close> everywhere
  and both stored samples start as \<open>k\<close>, \<open>n\<close> successive steps from \<open>y0\<close> end
  at \<open>y0 + k * n * dlna\<close>.
\<close>

theorem constant_derivative_linear:
  "(fst (dxedlna_next1 E param z1 c fs i h) = k \<and> dxedlna_prev2 L = k
      \<longrightarrow> fst (rec_get_xe_next1 E param z1 c fs i h L) = c + k * dlna param)
   \<and> ((\<forall>z1 x i h. fst (dxedlna_next1 E param z1 x fs i h) = k)
        \<and> dxedlna_prev L = k \<and> dxedlna_prev2 L = k
      \<longrightarrow> fst (next1_repeated E param fs zs i0 n (y0, h0, L)) = y0 + k * real n * dlna param)"
proof (intro conjI impI)
  assume "fst (dxedlna_next1 E param z1 c fs i h) = k \<and> dxedlna_prev2 L = k"
  then show "fst (rec_get_xe_next1 E param z1 c fs i h L) = c + k * dlna param"
    by (simp add: rec_get_xe_next1_def Let_def split_beta algebra_simps)
next
  assume a: "(\<forall>z1 x i h. fst (dxedlna_next1 E param z1 x fs i h) = k)
               \<and> dxedlna_prev L = k \<and> dxedlna_prev2 L = k"
  then have "\<And>z1 x i h. fst (dxedlna_next1 E param z1 x fs i h) = k" by blast
  from next1_repeated_constant [OF this, of L zs i0 n y0 h0] a
  show "fst (next1_repeated E param fs zs i0 n (y0, h0, L)) = y0 + k * real n * dlna param"
    by blast
qed

theorem constant_derivative_linear_witness:
  "fst (rec_get_xe_next1 (fixed_externals 1 0 2) short_param 1100 1 FUNC_H2G 7 ()
          (zero_lagged\<lparr>dxedlna_prev := 2, dxedlna_prev2 := 2\<rparr>))
     = 1 + 2 * dlna short_param
   \<and> fst (next1_repeated (fixed_externals 1 0 2) short_param FUNC_H2G (\<lambda>j. 1100) 7 3
            (1, (), zero_lagged\<lparr>dxedlna_prev := 2, dxedlna_prev2 := 2\<rparr>))
     = 1 + 2 * real 3 * dlna short_param"
proof -
  have k: "fst (dxedlna_next1 (fixed_externals 1 0 2) short_param z1 x FUNC_H2G i h) = 2"
    for z1 x i h
    by (simp add: dxedlna_next1_def fixed_externals_def Let_def)
  show ?thesis
    using constant_derivative_linear [of "fixed_externals 1 0 2" short_param 1100 1 FUNC_H2G 7
        "()" 2 "zero_lagged\<lparr>dxedlna_prev := 2, dxedlna_prev2 := 2\<rparr>" "\<lambda>j. 1100" 7 3 1 "()"]
    by (simp add: k)
qed

subsection \<open>Steady-state matter temperature\<close>

text \<open>
  Claim C9. \<^verbatim>\<open>rec_Tmss\<close> does not depend on its redshift argument. The lagged redshifts
  have no effect on the temperature written by a step of stage 3 or of stage 4: changing
  \<^verbatim>\<open>z_prev\<close> and \<^verbatim>\<open>z_prev2\<close> in the state before the step leaves \<^verbatim>\<open>Tm_output\<close> after
  the step as it is.
\<close>

theorem Tmss_ignores_redshift:
  "rec_Tmss xe Tr H f nH z1 er = rec_Tmss xe Tr H f nH z2 er
   \<and> map_option Tm_output (stage3_body E param (s\<lparr>lag := (lag s)\<lparr>z_prev := v, z_prev2 := w\<rparr>\<rparr>))
       = map_option Tm_output (stage3_body E param s)
   \<and> map_option Tm_output (stage4_body E param (s\<lparr>lag := (lag s)\<lparr>z_prev := v, z_prev2 := w\<rparr>\<rparr>))
       = map_option Tm_output (stage4_body E param s)"
proof (intro conjI)
  show "rec_Tmss xe Tr H f nH z1 er = rec_Tmss xe Tr H f nH z2 er"
    by (simp add: rec_Tmss_def)
  show "map_option Tm_output (stage3_body E param (s\<lparr>lag := (lag s)\<lparr>z_prev := v, z_prev2 := w\<rparr>\<rparr>))
       = map_option Tm_output (stage3_body E param s)"
    by (simp add: stage3_body_def rec_get_xe_next1_def put_xe_def put_Tm_def wr_def rd_def
        get_xe_def rec_Tmss_def Let_def split_beta)
  show "map_option Tm_output (stage4_body E param (s\<lparr>lag := (lag s)\<lparr>z_prev := v, z_prev2 := w\<rparr>\<rparr>))
       = map_option Tm_output (stage4_body E param s)"
    by (simp add: stage4_body_def put_xe_def put_Tm_def wr_def rd_def get_xe_def rec_Tmss_def
        Let_def split_beta)
qed

subsection \<open>Hubble rate\<close>

lemma of_exact_nonneg: "0 \<le> x \<Longrightarrow> nonneg_d (of_exact x)"
  by (simp add: of_exact_def)

lemma d_add_nonneg: "nonneg_d x \<Longrightarrow> nonneg_d y \<Longrightarrow> nonneg_d (d_add x y)"
  by (cases x; cases y) (simp_all add: of_exact_nonneg)

lemma d_mult_nonneg:
  "x = NaN \<or> nonneg_d x \<Longrightarrow> y = NaN \<or> nonneg_d y \<Longrightarrow> d_mult x y = NaN \<or> nonneg_d (d_mult x y)"
  by (cases x; cases y) (auto simp: of_exact_nonneg)

lemma d_pow_nonneg: "x = NaN \<or> nonneg_d x \<Longrightarrow> d_pow x y = NaN \<or> nonneg_d (d_pow x y)"
  by (cases x; cases y) (auto simp: of_exact_nonneg)

lemma d_exp_nonneg: "d_exp x = NaN \<or> nonneg_d (d_exp x)"
  by (cases x) (auto simp: of_exact_nonneg)

lemma d_sqrt_nonneg: "nonneg_d x \<Longrightarrow> nonneg_d (d_sqrt x)"
  by (cases x) (auto simp: of_exact_nonneg)

lemma d_mult_pos_nonneg: "0 < c \<Longrightarrow> nonneg_d x \<Longrightarrow> nonneg_d (d_mult (Fin c) x)"
  by (cases x) (auto simp: of_exact_nonneg)

lemma rho_i_d_not_negative:
  assumes "- 1 < z1" "0 \<le> omh2 param" "0 \<le> okh2 param" "0 \<le> odeh2 param"
    "0 \<le> T0 param" "0 \<le> Nnueff param"
  shows "\<forall>d \<in> set (rho_i_d param z1). d = NaN \<or> nonneg_d d"
proof -
  define nn where "nn = (\<lambda>d. d = NaN \<or> nonneg_d d)"
  define ainv where "ainv = d_add (Fin 1) (Fin z1)"
  have A: "nn ainv" using assms by (simp add: nn_def ainv_def of_exact_nonneg)
  have F: "nn (Fin c)" if "0 \<le> c" for c using that by (simp add: nn_def)
  have m: "nn (d_mult x y)" if "nn x" "nn y" for x y
    using that d_mult_nonneg [of x y] by (simp add: nn_def)
  have p: "nn (d_pow x y)" if "nn x" for x y
    using that d_pow_nonneg [of x y] by (simp add: nn_def)
  have e: "nn (d_exp x)" for x using d_exp_nonneg [of x] by (simp add: nn_def)
  have r0: "nn (d_mult (d_mult (d_mult (Fin (omh2 param)) ainv) ainv) ainv)"
    by (intro m F A assms)
  have r1: "nn (d_mult (d_mult (Fin (okh2 param)) ainv) ainv)"
    by (intro m F A assms)
  have r2: "nn (d_mult
                   (d_mult (Fin (odeh2 param))
                      (d_pow ainv (d_mult (Fin 3) (d_add (Fin 1) (Fin (w0 param))))))
                   (d_exp (d_mult (d_mult (Fin 3) (Fin (wa param)))
                             (d_add (d_sub (d_log ainv) (Fin 1)) (d_div (Fin 1) ainv)))))"
    by (intro m p e F A assms)
  have r3: "nn (d_mult (d_mult (d_mult (d_mult
              (d_mult (d_mult (d_mult (d_mult (Fin (4.48162687719 / 10 ^ 7))
                   (Fin (T0 param))) (Fin (T0 param))) (Fin (T0 param))) (Fin (T0 param)))
              ainv) ainv) ainv) ainv)"
    by (intro m F A assms) simp
  have r4: "nn (d_mult (d_mult (Fin 0.227107317660239)
              (d_mult (d_mult (d_mult (d_mult
              (d_mult (d_mult (d_mult (d_mult (Fin (4.48162687719 / 10 ^ 7))
                   (Fin (T0 param))) (Fin (T0 param))) (Fin (T0 param))) (Fin (T0 param)))
              ainv) ainv) ainv) ainv)) (Fin (Nnueff param)))"
    by (intro m r3 F assms) simp
  show ?thesis
    using r0 r1 r2 r3 r4 unfolding rho_i_d_def Let_def nn_def ainv_def
    by (simp only: list.set ball_simps)
qed

lemma hubble_d_nonneg:
  assumes "\<forall>d \<in> set (rho_i_d param z1). nonneg_d d"
  shows "nonneg_d (rec_HubbleConstant_d param z1)"
proof -
  have l: "length (rho_i_d param z1) = 5" by (simp add: rho_i_d_def Let_def)
  then obtain a b c d e where r: "rho_i_d param z1 = [a, b, c, d, e]"
    by (auto simp: length_Suc_conv eval_nat_numeral)
  have "nonneg_d (foldl d_add (Fin 0) (rho_i_d param z1))"
    using assms unfolding r by (simp add: d_add_nonneg)
  then show ?thesis
    by (simp add: rec_HubbleConstant_d_def Let_def d_mult_pos_nonneg d_sqrt_nonneg)
qed

lemma stiff_pow_overflows: "d_pow (Fin 1101) (Fin 123) = PInf"
proof -
  have "(1101::real) powr 123 = 1101 ^ 123" by (simp add: powr_numeral)
  moreover have "(2::real) ^ 1024 - 2 ^ 970 \<le> 1101 ^ 123" by simp
  ultimately show ?thesis by (simp add: of_exact_def)
qed

lemma d_add_NaN_right: "d_add x NaN = NaN"
  by (cases x) simp_all

lemma d_mult_NaN_right: "d_mult x NaN = NaN"
  by (cases x) simp_all

lemma stiff_NaN: "rho_i_d stiff_param 1100 ! 2 = NaN \<and> rec_HubbleConstant_d stiff_param 1100 = NaN"
proof -
  have f: "odeh2 stiff_param = 0" "w0 stiff_param = 40"
    by (simp_all add: stiff_param_def)
  have a: "d_add (Fin 1) (Fin 1100) = Fin 1101" by (simp add: of_exact_def)
  have e: "d_mult (Fin 3) (d_add (Fin 1) (Fin 40)) = Fin 123" by (simp add: of_exact_def)
  have r2: "rho_i_d stiff_param 1100 ! 2 = NaN"
    unfolding rho_i_d_def Let_def f a e stiff_pow_overflows by simp
  have l: "length (rho_i_d stiff_param 1100) = 5" by (simp add: rho_i_d_def Let_def)
  then obtain r0 r1 r2' r3 r4 where r: "rho_i_d stiff_param 1100 = [r0, r1, r2', r3, r4]"
    by (auto simp: length_Suc_conv eval_nat_numeral)
  with r2 have "r2' = NaN" by simp
  then have "foldl d_add (Fin 0) (rho_i_d stiff_param 1100) = NaN"
    unfolding r by (simp add: d_add_NaN_right)
  then show ?thesis using r2
    by (simp add: rec_HubbleConstant_d_def Let_def)
qed

lemma canonical_today:
  "rho_i_d canonical_param 0
     = [Fin 0.14, Fin 0, Fin 0.31,
        Fin (4.48162687719 / 10 ^ 7 * 2.726 * 2.726 * 2.726 * 2.726),
        Fin (0.227107317660239 * (4.48162687719 / 10 ^ 7 * 2.726 * 2.726 * 2.726 * 2.726)
               * 3.046)]"
  by (simp add: rho_i_d_def Let_def canonical_fields of_exact_def d_sub_def)

text \<open>
  Claim C10 does not hold as stated: the claim bounds neither \<^verbatim>\<open>w0\<close> nor \<^verbatim>\<open>wa\<close>, and
  \<^verbatim>\<open>pow\<close> can overflow. With the canonical parameters, no dark energy and \<open>w0 = 40\<close>,
  at \<open>z = 1100\<close> the factor \<open>pow(1101, 123)\<close> is an infinity and its product with
  \<^verbatim>\<open>odeh2 = 0\<close> is NaN: the dark-energy density and the rate returned are NaN.
\<close>

theorem hubble_NaN_counterexample:
  "- 1 < (1100::real) \<and> 0 \<le> omh2 stiff_param \<and> 0 \<le> okh2 stiff_param
   \<and> 0 \<le> odeh2 stiff_param \<and> 0 \<le> T0 stiff_param \<and> 0 \<le> Nnueff stiff_param
   \<and> rho_i_d stiff_param 1100 ! 2 = NaN
   \<and> rec_HubbleConstant_d stiff_param 1100 = NaN"
  using stiff_NaN by (simp add: stiff_param_def canonical_fields)

text \<open>
  Claim C10, amended. For \<open>z > -1\<close> and nonnegative \<^verbatim>\<open>omh2\<close>, \<^verbatim>\<open>okh2\<close>, \<^verbatim>\<open>odeh2\<close>,
  \<^verbatim>\<open>T0\<close> and \<^verbatim>\<open>Nnueff\<close>: in exact arithmetic each of the five densities is
  nonnegative, so is their sum (the argument of the square root), and so is the Hubble
  rate. In double arithmetic with overflow, each density is a nonnegative number, plus
  infinity or NaN, and the rate returned is a nonnegative number or plus infinity whenever
  none of the five densities is NaN.
\<close>

theorem hubble_nonneg:
  assumes "- 1 < z1" "0 \<le> omh2 param" "0 \<le> okh2 param" "0 \<le> odeh2 param"
    "0 \<le> T0 param" "0 \<le> Nnueff param"
  shows "(\<forall>r \<in> set (rho_i param z1). 0 \<le> r) \<and> 0 \<le> foldl (+) 0 (rho_i param z1)
         \<and> 0 \<le> rec_HubbleConstant param z1
         \<and> (\<forall>d \<in> set (rho_i_d param z1). d = NaN \<or> nonneg_d d)
         \<and> ((\<forall>d \<in> set (rho_i_d param z1). d \<noteq> NaN)
              \<longrightarrow> nonneg_d (rec_HubbleConstant_d param z1))"
proof -
  have a: "0 < 1 + z1" using assms by simp
  have 1: "\<forall>r \<in> set (rho_i param z1). 0 \<le> r"
    using assms a by (simp add: rho_i_def Let_def)
  have 2: "0 \<le> foldl (+) 0 (rho_i param z1)"
    using assms a by (simp add: rho_i_def Let_def)
  have 3: "0 \<le> rec_HubbleConstant param z1"
    using 2 by (simp add: rec_HubbleConstant_def Let_def)
  note 4 = rho_i_d_not_negative [OF assms]
  have 5: "nonneg_d (rec_HubbleConstant_d param z1)"
    if "\<forall>d \<in> set (rho_i_d param z1). d \<noteq> NaN"
    using that 4 by (intro hubble_d_nonneg) blast
  show ?thesis using 1 2 3 4 5 by blast
qed

theorem hubble_nonneg_witness:
  "- 1 < (0::real) \<and> 0 \<le> omh2 canonical_param \<and> 0 \<le> okh2 canonical_param
   \<and> 0 \<le> odeh2 canonical_param \<and> 0 \<le> T0 canonical_param \<and> 0 \<le> Nnueff canonical_param
   \<and> 0 \<le> rho_i canonical_param 0 ! 0 \<and> 0 \<le> rho_i canonical_param 0 ! 1
   \<and> 0 \<le> rho_i canonical_param 0 ! 2 \<and> 0 \<le> rho_i canonical_param 0 ! 3
   \<and> 0 \<le> rho_i canonical_param 0 ! 4
   \<and> 0 \<le> foldl (+) 0 (rho_i canonical_param 0)
   \<and> 0 \<le> rec_HubbleConstant canonical_param 0
   \<and> NaN \<notin> set (rho_i_d canonical_param 0)
   \<and> nonneg_d (rec_HubbleConstant_d canonical_param 0)"
proof -
  have h: "- 1 < (0::real)" "0 \<le> omh2 canonical_param" "0 \<le> okh2 canonical_param"
    "0 \<le> odeh2 canonical_param" "0 \<le> T0 canonical_param" "0 \<le> Nnueff canonical_param"
    by (simp_all add: canonical_fields)
  note r = hubble_nonneg [OF h]
  have len: "length (rho_i canonical_param 0) = 5" by (simp add: rho_i_def Let_def)
  have n: "0 \<le> rho_i canonical_param 0 ! k" if "k < 5" for k
    using r that len nth_mem [of k "rho_i canonical_param 0"] by simp
  have d: "NaN \<notin> set (rho_i_d canonical_param 0)" by (simp add: canonical_today)
  then have "\<forall>d \<in> set (rho_i_d canonical_param 0). d \<noteq> NaN" by blast
  with r have "nonneg_d (rec_HubbleConstant_d canonical_param 0)" by blast
  then show ?thesis using h r n d by simp
qed

subsection \<open>Dark-energy density\<close>

lemma ln2_gt_quarter: "1 / 4 < ln (2::real)"
proof -
  have "exp (1 / 4 :: real) \<le> 1 + 1 / 4 + (1 / 4)\<^sup>2" by (rule exp_bound) simp_all
  also have "\<dots> < 2" by (simp add: power2_eq_square)
  finally have "exp (1 / 4 :: real) < exp (ln 2)" by simp
  then show ?thesis by (simp only: exp_less_cancel_iff)
qed

text \<open>
  Claim C5 does not hold as stated: the exponential factor of the source is not
  \<open>exp (3 * wa * ln a)\<close>. With \<open>wa = 1\<close> and \<open>w0 = -1\<close> at \<open>z = 1\<close> the density of
  the source differs from the one the claim gives.
\<close>

theorem dark_energy_counterexample:
  "rho_i cpl_param 1 ! 2
     \<noteq> odeh2 cpl_param * (1 / (1 + 1)) powr (- 3 * (1 + w0 cpl_param))
         * exp (3 * wa cpl_param * ln (1 / (1 + 1)))"
proof -
  have "ln (1 / 2 :: real) = - ln 2" by (simp add: ln_div)
  then show ?thesis using ln2_gt_quarter
    by (simp add: rho_i_def Let_def cpl_param_def canonical_fields)
qed

text \<open>
  Claim C5, amended. For \<open>z > -1\<close> and \<open>a = 1 / (1 + z)\<close>, the dark-energy density
  summed in \<^verbatim>\<open>rec_HubbleConstant\<close> is
  \<open>odeh2 * a powr (- 3 * (1 + w0)) * exp (3 * wa * (a - 1 - ln a))\<close>.
\<close>

theorem dark_energy_density:
  assumes "- 1 < z1"
  shows "rho_i param z1 ! 2 =
           (let a = 1 / (1 + z1)
            in odeh2 param * a powr (- 3 * (1 + w0 param)) * exp (3 * wa param * (a - 1 - ln a)))"
proof -
  have p: "0 < 1 + z1" using assms by simp
  have 1: "(1 / (1 + z1)) powr (- 3 * (1 + w0 param)) = (1 + z1) powr (3 * (1 + w0 param))"
    using p by (simp add: powr_def ln_div algebra_simps)
  have 2: "ln (1 / (1 + z1)) = - ln (1 + z1)" using p by (simp add: ln_div)
  show ?thesis
    unfolding Let_def 1 2 by (simp add: rho_i_def Let_def)
qed

theorem dark_energy_density_witness:
  "rho_i cpl_param 1 ! 2 =
     (let a = 1 / (1 + 1)
      in odeh2 cpl_param * a powr (- 3 * (1 + w0 cpl_param))
           * exp (3 * wa cpl_param * (a - 1 - ln a)))"
  using dark_energy_density [of 1 cpl_param] by simp

subsection \<open>Continuity of the energy injection\<close>

lemma p_ann_mid_2500: "p_ann_mid param 2500 = p_ann_high param"
  by (simp add: p_ann_mid_def p_ann_high_def)

lemma p_ann_mid_30: "p_ann_mid param 30 = p_ann_low param"
  by (simp add: p_ann_mid_def p_ann_low_def)

lemma p_ann_mid_continuous: "continuous_on {30..2500} (p_ann_mid param)"
  unfolding p_ann_mid_def
  by (intro continuous_intros) auto

lemma p_annihilation_at_z_alt:
  "p_annihilation_at_z param =
     (\<lambda>z1. if z1 \<le> 2500 then (if 30 \<le> z1 then p_ann_mid param z1 else p_ann_low param)
           else p_ann_high param)"
  by (auto simp: p_annihilation_at_z_def fun_eq_iff p_ann_mid_30)

lemma p_ann_below_2500_continuous:
  "continuous_on {..2500} (\<lambda>z1. if 30 \<le> z1 then p_ann_mid param z1 else p_ann_low param)"
proof -
  have "continuous_on ({30..2500} \<union> {..30})
          (\<lambda>z1. if 30 \<le> z1 then p_ann_mid param z1 else p_ann_low param)"
    by (rule continuous_on_If)
       (auto simp: p_ann_mid_continuous p_ann_mid_30 intro!: continuous_intros)
  moreover have "{30..2500} \<union> {..30} = {..(2500::real)}" by auto
  ultimately show ?thesis by simp
qed

lemma p_annihilation_at_z_continuous: "continuous_on UNIV (p_annihilation_at_z param)"
proof -
  have "continuous_on ({..2500} \<union> {2500..}) (p_annihilation_at_z param)"
    unfolding p_annihilation_at_z_alt
    by (rule continuous_on_If)
       (auto simp: p_ann_below_2500_continuous p_ann_mid_2500 intro!: continuous_intros)
  moreover have "{..2500} \<union> {2500..} = (UNIV :: real set)" by auto
  ultimately show ?thesis by simp
qed

lemma energy_injection_rate_continuous: "continuous_on UNIV (energy_injection_rate param)"
  unfolding energy_injection_rate_def Let_def
  by (intro continuous_intros p_annihilation_at_z_continuous)

text \<open>
  Claim C6. The branch for \<open>z > 2500\<close> and the middle branch agree at \<open>z = 2500\<close>, the
  middle branch at \<open>z = 30\<close> equals the frozen branch, and both the annihilation
  parameter and the injection rate are continuous functions of \<open>z\<close> at 2500 and at 30.
\<close>

theorem annihilation_continuous:
  "p_ann_mid param 2500 = p_ann_high param
   \<and> p_ann_mid param 30 = p_ann_low param
   \<and> p_annihilation_at_z param 2500 = p_ann_high param
   \<and> p_annihilation_at_z param 30 = p_ann_mid param 30
   \<and> isCont (p_annihilation_at_z param) 2500
   \<and> isCont (p_annihilation_at_z param) 30
   \<and> isCont (energy_injection_rate param) 2500
   \<and> isCont (energy_injection_rate param) 30"
proof -
  have p: "isCont (p_annihilation_at_z param) x" for x
    using p_annihilation_at_z_continuous [of param]
    by (simp add: continuous_on_eq_continuous_at)
  have e: "isCont (energy_injection_rate param) x" for x
    using energy_injection_rate_continuous [of param]
    by (simp add: continuous_on_eq_continuous_at)
  have v: "p_annihilation_at_z param 2500 = p_ann_high param"
    "p_annihilation_at_z param 30 = p_ann_mid param 30"
    by (simp_all add: p_annihilation_at_z_def p_ann_mid_2500 p_ann_mid_30)
  show ?thesis
    using p e v p_ann_mid_2500 p_ann_mid_30 by blast
qed

subsection \<open>The grid length\<close>

text \<open>
  Bounds on the exponential from its Taylor polynomial, used to locate \<open>ln 8001\<close>
  between two multiples of the step \<open>8.49e-5\<close>.
\<close>

lemma exp_taylor_upper:
  fixes x :: real
  assumes "0 \<le> x" "x \<le> 1"
  shows "exp x \<le> (\<Sum>m<n. x ^ m / fact m) + 3 * x ^ n / fact n"
proof -
  obtain t where t: "\<bar>t\<bar> \<le> \<bar>x\<bar>"
    and e: "exp x = (\<Sum>m<n. x ^ m / fact m) + exp t / fact n * x ^ n"
    using Maclaurin_exp_le [of x n] by blast
  have "t \<le> 1" using t assms by simp
  then have "exp t \<le> exp 1" by simp
  also have "\<dots> \<le> 3" by (rule exp_le)
  finally have "exp t \<le> 3" .
  then have "exp t / fact n * x ^ n \<le> 3 / fact n * x ^ n"
    using assms by (intro mult_right_mono divide_right_mono) simp_all
  then show ?thesis using e by simp
qed

lemma exp_taylor_lower:
  fixes x :: real
  assumes "0 \<le> x"
  shows "(\<Sum>m<n. x ^ m / fact m) \<le> exp x"
proof -
  obtain t where e: "exp x = (\<Sum>m<n. x ^ m / fact m) + exp t / fact n * x ^ n"
    using Maclaurin_exp_le [of x n] by blast
  have "0 \<le> exp t / fact n * x ^ n" using assms by simp
  then show ?thesis using e by simp
qed

lemma sum_ten_terms:
  fixes f :: "nat \<Rightarrow> real"
  shows "(\<Sum>m<10. f m) = f 0 + f 1 + f 2 + f 3 + f 4 + f 5 + f 6 + f 7 + f 8 + f 9"
  by (simp add: eval_nat_numeral)

lemma exp_below_8001: "exp (89872593 / 10 ^ 7 :: real) < 8001"
proof -
  let ?x = "89872593 / (16 * 10 ^ 7) :: real"
  have "exp ?x \<le> (\<Sum>m<10. ?x ^ m / fact m) + 3 * ?x ^ 10 / fact 10"
    by (rule exp_taylor_upper) simp_all
  also have "\<dots> \<le> 175365768 / 10 ^ 8"
    by (simp add: sum_ten_terms fact_numeral power_divide)
  finally have "exp ?x \<le> 175365768 / 10 ^ 8" .
  then have "exp ?x ^ 16 \<le> (175365768 / 10 ^ 8) ^ 16"
    by (intro power_mono) simp_all
  also have "\<dots> < 8001" by (simp add: power_divide)
  finally have "exp ?x ^ 16 < 8001" .
  moreover have "exp ?x ^ 16 = exp (89872593 / 10 ^ 7)"
    by (simp add: exp_of_nat_mult [symmetric])
  ultimately show ?thesis by simp
qed

lemma exp_above_8001: "8001 < exp (89873442 / 10 ^ 7 :: real)"
proof -
  let ?x = "89873442 / (16 * 10 ^ 7) :: real"
  have "(175366697 / 10 ^ 8 :: real) \<le> (\<Sum>m<10. ?x ^ m / fact m)"
    by (simp add: sum_ten_terms fact_numeral power_divide)
  also have "\<dots> \<le> exp ?x"
    by (rule exp_taylor_lower) simp
  finally have b: "175366697 / 10 ^ 8 \<le> exp ?x" .
  have "(8001::real) < (175366697 / 10 ^ 8) ^ 16" by (simp add: power_divide)
  also have "\<dots> \<le> exp ?x ^ 16"
    using b by (intro power_mono) simp_all
  also have "\<dots> = exp (89873442 / 10 ^ 7)"
    by (simp add: exp_of_nat_mult [symmetric])
  finally show ?thesis .
qed

lemma ln_8001_bounds:
  "105857 < ln (8001::real) / (8.49 / 10 ^ 5) \<and> ln (8001::real) / (8.49 / 10 ^ 5) < 105858"
proof -
  have "exp (89872593 / 10 ^ 7 :: real) < exp (ln 8001)" using exp_below_8001 by simp
  then have l: "89872593 / 10 ^ 7 < ln (8001 :: real)" by (simp only: exp_less_cancel_iff)
  have "exp (ln 8001) < exp (89873442 / 10 ^ 7 :: real)" using exp_above_8001 by simp
  then have u: "ln (8001 :: real) < 89873442 / 10 ^ 7" by (simp only: exp_less_cancel_iff)
  show ?thesis using l u by (simp add: field_simps)
qed

lemma nz_value: "nz (rec_get_cosmoparam inp param0) = 105859"
proof -
  have "\<lfloor>2 + ln (8001::real) / (8.49 / 10 ^ 5)\<rfloor> = 105859"
    using ln_8001_bounds by (intro floor_unique) simp_all
  then show ?thesis by (simp add: rec_get_cosmoparam_def Let_def)
qed

lemma ceiling_value: "\<lceil>ln (8001::real) / (8.49 / 10 ^ 5)\<rceil> = 105858"
  using ln_8001_bounds by (intro ceiling_unique) simp_all

text \<open>
  Claim C4 does not hold as stated: the source takes the floor, and the quotient is not
  an integer. For the canonical input the grid length is 105859, while two plus the
  ceiling of the quotient is 105860.
\<close>

theorem nz_ceiling_counterexample:
  "nz canonical_param
     \<noteq> 2 + \<lceil>ln ((1 + zstart canonical_param) / (1 + zend canonical_param))
              / dlna canonical_param\<rceil>"
  using ceiling_value
  by (simp add: canonical_fields) (simp add: canonical_param_def nz_value)

text \<open>
  Claim C4, amended. After \<^verbatim>\<open>rec_get_cosmoparam\<close> the grid length is two plus the floor
  of \<open>ln ((1 + zstart) / (1 + zend)) / dlna\<close>; with the fixed grid constants this is
  105859 for every input.
\<close>

theorem nz_floor:
  "nz (rec_get_cosmoparam inp param0)
     = 2 + \<lfloor>ln ((1 + zstart (rec_get_cosmoparam inp param0))
                   / (1 + zend (rec_get_cosmoparam inp param0)))
              / dlna (rec_get_cosmoparam inp param0)\<rfloor>
   \<and> nz (rec_get_cosmoparam inp param0) = 105859"
proof -
  have "\<lfloor>ln (8001::real) / (8.49 / 10 ^ 5)\<rfloor> = 105857"
    using ln_8001_bounds by (intro floor_unique) simp_all
  then show ?thesis
    by (simp add: nz_value) (simp add: rec_get_cosmoparam_def Let_def)
qed

subsection \<open>No validation at construction\<close>

text \<open>
  Claim C7 does not hold: \<^verbatim>\<open>rec_get_cosmoparam\<close> has no check and no error result.
  From an input with a temperature of \<open>-1\<close>, negative densities and \<open>Y = 3/2\<close> it
  builds a parameter structure that holds these values.
\<close>

theorem no_validation_counterexample:
  "\<not> 0 < T0 (rec_get_cosmoparam unphysical_scanned zeroed_param)
   \<and> \<not> 0 \<le> obh2 (rec_get_cosmoparam unphysical_scanned zeroed_param)
   \<and> \<not> 0 \<le> omh2 (rec_get_cosmoparam unphysical_scanned zeroed_param)
   \<and> \<not> 0 \<le> okh2 (rec_get_cosmoparam unphysical_scanned zeroed_param)
   \<and> \<not> 0 \<le> odeh2 (rec_get_cosmoparam unphysical_scanned zeroed_param)
   \<and> \<not> Y (rec_get_cosmoparam unphysical_scanned zeroed_param) < 1"
  by (simp add: rec_get_cosmoparam_def Let_def unphysical_scanned_def)

text \<open>
  Claim C7, amended. \<^verbatim>\<open>rec_get_cosmoparam\<close> validates nothing: whatever the nine
  scanned numbers are, the structure it fills holds exactly these numbers, the fixed grid
  constants, and the grid length 105859, which is above 4.
\<close>

theorem cosmoparam_stores_input:
  "T0 (rec_get_cosmoparam inp param0) = in_T0 inp
   \<and> obh2 (rec_get_cosmoparam inp param0) = in_obh2 inp
   \<and> omh2 (rec_get_cosmoparam inp param0) = in_omh2 inp
   \<and> okh2 (rec_get_cosmoparam inp param0) = in_okh2 inp
   \<and> odeh2 (rec_get_cosmoparam inp param0) = in_odeh2 inp
   \<and> w0 (rec_get_cosmoparam inp param0) = in_w0 inp
   \<and> wa (rec_get_cosmoparam inp param0) = in_wa inp
   \<and> Y (rec_get_cosmoparam inp param0) = in_Y inp
   \<and> Nnueff (rec_get_cosmoparam inp param0) = in_Nnueff inp
   \<and> zstart (rec_get_cosmoparam inp param0) = 8000
   \<and> zend (rec_get_cosmoparam inp param0) = 0
   \<and> dlna (rec_get_cosmoparam inp param0) = 8.49 / 10 ^ 5
   \<and> nz (rec_get_cosmoparam inp param0) = 105859
   \<and> 4 < nz (rec_get_cosmoparam inp param0)"
  by (simp add: nz_value) (simp add: rec_get_cosmoparam_def Let_def)

subsection \<open>The stage loops keep the arrays filled in order\<close>













subsection \<open>A run on the five-point grid\<close>

lemmas saha_body_defs =
  stage1_body_def stage2_body_def put_xe_def put_Tm_def wr_def fixed_externals_def

lemma short_stage1:
  "stage1 (fixed_externals 1 0 k) short_param
     (init_locals short_param short_arrays short_arrays () zero_lagged)
   = Some \<lparr>iz = 5, z = z_grid short_param 4, Delta_xe = 1, lag = zero_lagged,
       xe_output = [1, 1, 1, 1, 1],
       Tm_output = [short_Tm 0, short_Tm 1, short_Tm 2, short_Tm 3, short_Tm 4],
       hist = (), xe_written = [0, 1, 2, 3, 4], Tm_written = [0, 1, 2, 3, 4]\<rparr>"
  unfolding stage1_def short_Tm_def short_arrays_def
  apply (simp add: init_locals_def short_param_fields(1))
  apply (subst stage_loop.simps, simp add: saha_body_defs)
  apply (subst stage_loop.simps, simp add: saha_body_defs)
  apply (subst stage_loop.simps, simp add: saha_body_defs)
  apply (subst stage_loop.simps, simp add: saha_body_defs)
  apply (subst stage_loop.simps, simp add: saha_body_defs)
  apply (subst stage_loop.simps, simp add: saha_body_defs)
  done

lemma short_saha:
  "saha_stages (fixed_externals 1 0 k) short_param short_arrays short_arrays () zero_lagged
   = Some \<lparr>iz = 5, z = z_grid short_param 4, Delta_xe = 0, lag = zero_lagged,
       xe_output = [1, 1, 1, 1, 1],
       Tm_output = [short_Tm 0, short_Tm 1, short_Tm 2, short_Tm 3, short_Tm 4],
       hist = (), xe_written = [0, 1, 2, 3, 4], Tm_written = [0, 1, 2, 3, 4]\<rparr>"
  by (simp add: saha_stages_def short_stage1)
     (simp add: stage2_def stage_loop_done short_param_fields(1))

lemma short_injection: "energy_injection_rate short_param x = 0"
  by (simp add: energy_injection_rate_def short_param_fields p_annihilation_at_z_def
      p_ann_high_def p_ann_mid_def p_ann_low_def)

lemma short_steady:
  "steady_Tm_stages (fixed_externals 1 0 k) short_param short_arrays short_arrays () zero_lagged
   = Some (short_stage6_entry
             \<lparr>lag := (lag short_stage6_entry)\<lparr>dTmdlna_prev := 0, dTmdlna_prev2 := 0\<rparr>\<rparr>)"
  apply (simp add: steady_Tm_stages_def short_saha)
  apply (simp add: stage3_def seed_xe_def get_xe_def rd_def stage_loop_done
      short_param_fields(1))
  apply (simp add: stage4_def stage_loop_done short_param_fields(1))
  apply (simp add: stage5_def seed_xe_def get_xe_def rd_def stage_loop_done
      short_param_fields(1))
  apply (simp add: short_stage6_entry_def zero_lagged_def)
  done

lemma short_entry6_seed_Tm:
  "seed_Tm (fixed_externals 1 0 k) short_param
     (short_stage6_entry
        \<lparr>lag := (lag short_stage6_entry)\<lparr>dTmdlna_prev := a, dTmdlna_prev2 := b\<rparr>\<rparr>)
   = short_stage6_entry"
  by (simp add: seed_Tm_def get_xe_def get_Tm_def rd_def short_stage6_entry_def rec_dTmdlna_def
      short_injection short_Tm_def)

lemma short_entry6:
  "map_option (seed_Tm (fixed_externals 1 0 k) short_param)
     (steady_Tm_stages (fixed_externals 1 0 k) short_param short_arrays short_arrays ()
        zero_lagged)
   = Some short_stage6_entry"
  by (simp add: short_steady short_entry6_seed_Tm)

text \<open>
  On the grid, \<open>Tm = T0 * (1 + zstart) * u ^ i\<close> with \<open>u = exp (- dlna)\<close>; twice this
  value is not a centred difference quotient of its neighbours.
\<close>

lemma short_Tm_exp: "short_Tm (int j) = 2.726 * 8001 * exp (- (8.49 / 10 ^ 5)) ^ j"
proof -
  have "exp (- (8.49 / 10 ^ 5) * real j) = exp (- (8.49 / 10 ^ 5)) ^ j"
    by (rule exp_of_nat2_mult)
  then show ?thesis
    by (simp add: short_Tm_def z_grid_def short_param_fields)
qed

lemma decay_factor:
  fixes u d :: real
  assumes d: "d = 8.49 / 10 ^ 5" and u: "u = exp (- d)"
  shows "0 < u" "0 < u\<^sup>2 + 4 * d * u - 1"
proof -
  show "0 < u" by (simp add: u)
  have u1: "1 - d \<le> u" using exp_ge_add_one_self [of "- d"] by (simp add: u)
  have d0: "0 \<le> 1 - d" "0 \<le> d" by (simp_all add: d)
  have "(1 - d)\<^sup>2 \<le> u\<^sup>2" using u1 d0 by (intro power_mono)
  moreover have "4 * d * (1 - d) \<le> 4 * d * u" using u1 d0 by (intro mult_left_mono) simp_all
  ultimately have "(1 - d)\<^sup>2 + 4 * d * (1 - d) - 1 \<le> u\<^sup>2 + 4 * d * u - 1" by linarith
  moreover have "(1 - d)\<^sup>2 + 4 * d * (1 - d) - 1 = 2 * d - 3 * d\<^sup>2"
    by (simp add: power2_eq_square algebra_simps)
  moreover have "0 < 2 * d - 3 * d\<^sup>2" by (simp add: d power2_eq_square)
  ultimately show "0 < u\<^sup>2 + 4 * d * u - 1" by linarith
qed

lemma short_Tm_not_central:
  "- 2 * short_Tm 2 \<noteq> (short_Tm 3 - short_Tm 1) / 2 / (8.49 / 10 ^ 5)"
  "- 2 * short_Tm 3 \<noteq> (short_Tm 4 - short_Tm 2) / 2 / (8.49 / 10 ^ 5)"
proof -
  define d :: real where "d = 8.49 / 10 ^ 5"
  define u where "u = exp (- d)"
  define c :: real where "c = 2.726 * 8001"
  have T: "short_Tm 1 = c * u" "short_Tm 2 = c * u ^ 2" "short_Tm 3 = c * u ^ 3"
    "short_Tm 4 = c * u ^ 4"
    using short_Tm_exp [of 1] short_Tm_exp [of 2] short_Tm_exp [of 3] short_Tm_exp [of 4]
    by (simp_all add: c_def u_def d_def)
  have pos: "0 < u" "0 < u\<^sup>2 + 4 * d * u - 1" using decay_factor [OF d_def u_def] by simp_all
  have d0: "0 < d" "0 < c" by (simp_all add: d_def c_def)
  have A: "(c * u ^ 3 - c * u) / 2 / d + 2 * (c * u ^ 2)
             = c * u * (u\<^sup>2 + 4 * d * u - 1) / (2 * d)"
    using d0 by (simp add: field_simps power2_eq_square power3_eq_cube)
  have "0 < c * u * (u\<^sup>2 + 4 * d * u - 1) / (2 * d)" using pos d0 by simp
  then show "- 2 * short_Tm 2 \<noteq> (short_Tm 3 - short_Tm 1) / 2 / (8.49 / 10 ^ 5)"
    unfolding T d_def [symmetric] using A by linarith
  have B: "(c * u ^ 4 - c * u ^ 2) / 2 / d + 2 * (c * u ^ 3)
             = c * u ^ 2 * (u\<^sup>2 + 4 * d * u - 1) / (2 * d)"
    using d0 by (simp add: field_simps power2_eq_square power3_eq_cube power4_eq_xxxx)
  have "0 < c * u ^ 2 * (u\<^sup>2 + 4 * d * u - 1) / (2 * d)" using pos d0 by simp
  then show "- 2 * short_Tm 3 \<noteq> (short_Tm 4 - short_Tm 2) / 2 / (8.49 / 10 ^ 5)"
    unfolding T d_def [symmetric] using B by linarith
qed

subsection \<open>Seeding of the lagged samples\<close>

text \<open>
  Claim C2 does not hold as stated: before the loop of stage 6 the two lagged
  \<^verbatim>\<open>Tm\<close> derivatives are not difference quotients of \<^verbatim>\<open>Tm_output\<close>. On the five-point
  grid with the canonical parameters, when stage 1 fills the grid, the run arrives at the
  loop of stage 6 with \<^verbatim>\<open>dTmdlna_prev2\<close> different from
  \<open>(Tm[iz-2] - Tm[iz-4]) / 2 / dlna\<close> and \<^verbatim>\<open>dTmdlna_prev\<close> different from
  \<open>(Tm[iz-1] - Tm[iz-3]) / 2 / dlna\<close>, where \<open>iz = 5\<close>.
\<close>

theorem stage6_seeding_counterexample:
  "map_option (seed_Tm (fixed_externals 1 0 0) short_param)
     (steady_Tm_stages (fixed_externals 1 0 0) short_param short_arrays short_arrays ()
        zero_lagged)
   = Some short_stage6_entry
   \<and> iz short_stage6_entry = 5
   \<and> dTmdlna_prev2 (lag short_stage6_entry)
       \<noteq> (Tm_output short_stage6_entry ! 3 - Tm_output short_stage6_entry ! 1) / 2
           / dlna short_param
   \<and> dTmdlna_prev (lag short_stage6_entry)
       \<noteq> (Tm_output short_stage6_entry ! 4 - Tm_output short_stage6_entry ! 2) / 2
           / dlna short_param"
  using short_Tm_not_central
  by (simp add: short_entry6) (simp add: short_stage6_entry_def short_param_fields)

text \<open>
  Claim C2, amended. Stages 3 and 5 begin with the seeding of the lagged \<^verbatim>\<open>xe\<close>
  samples: \<^verbatim>\<open>dxedlna_prev\<close> is \<open>(xe[iz-1] - xe[iz-3]) / 2 / dlna\<close> with \<^verbatim>\<open>z_prev\<close> the
  grid redshift of index \<open>iz - 2\<close>, and \<^verbatim>\<open>dxedlna_prev2\<close> is
  \<open>(xe[iz-2] - xe[iz-4]) / 2 / dlna\<close> with \<^verbatim>\<open>z_prev2\<close> the grid redshift of index
  \<open>iz - 3\<close>; for \<open>4 \<le> iz \<le> nz\<close> the four values read are elements of
  \<^verbatim>\<open>xe_output\<close>. Stage 6 begins with the seeding of the lagged \<^verbatim>\<open>Tm\<close> samples, which
  are values of \<^verbatim>\<open>rec_dTmdlna\<close> on the stored history at the indices \<open>iz - 3\<close> and
  \<open>iz - 2\<close> and at the lagged redshifts; it leaves the \<^verbatim>\<open>xe\<close> samples and the lagged
  redshifts as they are. Stages 7 and 8 begin with no seeding.
\<close>

theorem seeding_at_stage_entry:
  "z_prev2 (lag (seed_xe E param s)) = z_grid param (iz s - 3)
   \<and> dxedlna_prev2 (lag (seed_xe E param s))
       = (get_xe E s (iz s - 2) - get_xe E s (iz s - 4)) / 2 / dlna param
   \<and> z_prev (lag (seed_xe E param s)) = z_grid param (iz s - 2)
   \<and> dxedlna_prev (lag (seed_xe E param s))
       = (get_xe E s (iz s - 1) - get_xe E s (iz s - 3)) / 2 / dlna param
   \<and> (4 \<le> iz s \<and> iz s \<le> int (length (xe_output s)) \<longrightarrow>
         dxedlna_prev2 (lag (seed_xe E param s))
           = (xe_output s ! nat (iz s - 2) - xe_output s ! nat (iz s - 4)) / 2 / dlna param
       \<and> dxedlna_prev (lag (seed_xe E param s))
           = (xe_output s ! nat (iz s - 1) - xe_output s ! nat (iz s - 3)) / 2 / dlna param)
   \<and> dTmdlna_prev2 (lag (seed_Tm E param s))
       = rec_dTmdlna (get_xe E s (iz s - 3)) (get_Tm E s (iz s - 3))
           (T0 param * (1 + z_prev2 (lag s))) (rec_HubbleConstant param (z_prev2 (lag s)))
           (fHe param) (nH0 param * cube E (1 + z s)) (z_prev2 (lag s))
           (energy_injection_rate param (z_prev2 (lag s)))
   \<and> dTmdlna_prev (lag (seed_Tm E param s))
       = rec_dTmdlna (get_xe E s (iz s - 2)) (get_Tm E s (iz s - 2))
           (T0 param * (1 + z_prev (lag s))) (rec_HubbleConstant param (z_prev (lag s)))
           (fHe param) (nH0 param * cube E (1 + z s)) (z_prev (lag s))
           (energy_injection_rate param (z_prev (lag s)))
   \<and> (3 \<le> iz s \<and> iz s \<le> int (length (xe_output s)) \<and> iz s \<le> int (length (Tm_output s)) \<longrightarrow>
         dTmdlna_prev2 (lag (seed_Tm E param s))
           = rec_dTmdlna (xe_output s ! nat (iz s - 3)) (Tm_output s ! nat (iz s - 3))
               (T0 param * (1 + z_prev2 (lag s))) (rec_HubbleConstant param (z_prev2 (lag s)))
               (fHe param) (nH0 param * cube E (1 + z s)) (z_prev2 (lag s))
               (energy_injection_rate param (z_prev2 (lag s)))
       \<and> dTmdlna_prev (lag (seed_Tm E param s))
           = rec_dTmdlna (xe_output s ! nat (iz s - 2)) (Tm_output s ! nat (iz s - 2))
               (T0 param * (1 + z_prev (lag s))) (rec_HubbleConstant param (z_prev (lag s)))
               (fHe param) (nH0 param * cube E (1 + z s)) (z_prev (lag s))
               (energy_injection_rate param (z_prev (lag s))))
   \<and> z_prev (lag (seed_Tm E param s)) = z_prev (lag s)
   \<and> dxedlna_prev (lag (seed_Tm E param s)) = dxedlna_prev (lag s)
   \<and> z_prev2 (lag (seed_Tm E param s)) = z_prev2 (lag s)
   \<and> dxedlna_prev2 (lag (seed_Tm E param s)) = dxedlna_prev2 (lag s)
   \<and> stage3 E param s
       = stage_loop (\<lambda>s. Delta_xe s > 1 / 10 ^ 4 \<or> z s > 1650) (stage3_body E param)
           (nz param) ((seed_xe E param s)\<lparr>Delta_xe := 1\<rparr>)
   \<and> stage5 E param s
       = stage_loop (stage5_cond E param) (stage5_body E param) (nz param) (seed_xe E param s)
   \<and> stage6 E param s
       = stage_loop (\<lambda>s. z s > 700) (next2_body FUNC_H2G E param) (nz param)
           (seed_Tm E param s)
   \<and> stage7 E param s
       = stage_loop (\<lambda>s. z s > 20) (next2_body FUNC_HMLA E param) (nz param) s
   \<and> stage8 E param s
       = stage_loop (\<lambda>s. True) (next2_body FUNC_PEEBLES E param) (nz param) s"
proof -
  have x: "z_prev2 (lag (seed_xe E param s)) = z_grid param (iz s - 3)"
    "dxedlna_prev2 (lag (seed_xe E param s))
       = (get_xe E s (iz s - 2) - get_xe E s (iz s - 4)) / 2 / dlna param"
    "z_prev (lag (seed_xe E param s)) = z_grid param (iz s - 2)"
    "dxedlna_prev (lag (seed_xe E param s))
       = (get_xe E s (iz s - 1) - get_xe E s (iz s - 3)) / 2 / dlna param"
    by (simp_all add: seed_xe_def Let_def)
  have xin: "get_xe E s (iz s - 1) = xe_output s ! nat (iz s - 1)"
    "get_xe E s (iz s - 2) = xe_output s ! nat (iz s - 2)"
    "get_xe E s (iz s - 3) = xe_output s ! nat (iz s - 3)"
    "get_xe E s (iz s - 4) = xe_output s ! nat (iz s - 4)"
    if "4 \<le> iz s \<and> iz s \<le> int (length (xe_output s))"
    using that by (simp_all add: get_xe_def rd_def)
  have t: "dTmdlna_prev2 (lag (seed_Tm E param s))
       = rec_dTmdlna (get_xe E s (iz s - 3)) (get_Tm E s (iz s - 3))
           (T0 param * (1 + z_prev2 (lag s))) (rec_HubbleConstant param (z_prev2 (lag s)))
           (fHe param) (nH0 param * cube E (1 + z s)) (z_prev2 (lag s))
           (energy_injection_rate param (z_prev2 (lag s)))"
    "dTmdlna_prev (lag (seed_Tm E param s))
       = rec_dTmdlna (get_xe E s (iz s - 2)) (get_Tm E s (iz s - 2))
           (T0 param * (1 + z_prev (lag s))) (rec_HubbleConstant param (z_prev (lag s)))
           (fHe param) (nH0 param * cube E (1 + z s)) (z_prev (lag s))
           (energy_injection_rate param (z_prev (lag s)))"
    "z_prev (lag (seed_Tm E param s)) = z_prev (lag s)"
    "dxedlna_prev (lag (seed_Tm E param s)) = dxedlna_prev (lag s)"
    "z_prev2 (lag (seed_Tm E param s)) = z_prev2 (lag s)"
    "dxedlna_prev2 (lag (seed_Tm E param s)) = dxedlna_prev2 (lag s)"
    by (simp_all add: seed_Tm_def Let_def get_xe_def get_Tm_def)
  have tin: "get_xe E s (iz s - 3) = xe_output s ! nat (iz s - 3)"
    "get_xe E s (iz s - 2) = xe_output s ! nat (iz s - 2)"
    "get_Tm E s (iz s - 3) = Tm_output s ! nat (iz s - 3)"
    "get_Tm E s (iz s - 2) = Tm_output s ! nat (iz s - 2)"
    if "3 \<le> iz s \<and> iz s \<le> int (length (xe_output s)) \<and> iz s \<le> int (length (Tm_output s))"
    using that by (simp_all add: get_xe_def get_Tm_def rd_def)
  have st: "stage3 E param s
       = stage_loop (\<lambda>s. Delta_xe s > 1 / 10 ^ 4 \<or> z s > 1650) (stage3_body E param)
           (nz param) ((seed_xe E param s)\<lparr>Delta_xe := 1\<rparr>)"
    "stage5 E param s
       = stage_loop (stage5_cond E param) (stage5_body E param) (nz param) (seed_xe E param s)"
    "stage6 E param s
       = stage_loop (\<lambda>s. z s > 700) (next2_body FUNC_H2G E param) (nz param)
           (seed_Tm E param s)"
    "stage7 E param s
       = stage_loop (\<lambda>s. z s > 20) (next2_body FUNC_HMLA E param) (nz param) s"
    "stage8 E param s
       = stage_loop (\<lambda>s. True) (next2_body FUNC_PEEBLES E param) (nz param) s"
    by (simp_all add: stage3_def stage5_def stage6_def stage7_def stage8_def)
  show ?thesis
    apply (intro conjI impI)
    apply (rule x st t)+
    apply (simp only: x xin)
    apply (simp only: x xin)
    apply (rule x st t)+
    apply (simp only: t tin)
    apply (simp only: t tin)
    apply (rule x st t)+
    done
qed

theorem seeding_at_stage_entry_witness:
  "4 \<le> iz short_stage6_entry
   \<and> iz short_stage6_entry \<le> int (length (xe_output short_stage6_entry))
   \<and> iz short_stage6_entry \<le> int (length (Tm_output short_stage6_entry))
   \<and> dxedlna_prev (lag (seed_xe (fixed_externals 1 0 0) short_param short_stage6_entry))
       = (xe_output short_stage6_entry ! nat (iz short_stage6_entry - 1)
          - xe_output short_stage6_entry ! nat (iz short_stage6_entry - 3)) / 2
         / dlna short_param
   \<and> dTmdlna_prev2 (lag (seed_Tm (fixed_externals 1 0 0) short_param short_stage6_entry))
       = rec_dTmdlna (xe_output short_stage6_entry ! nat (iz short_stage6_entry - 3))
           (Tm_output short_stage6_entry ! nat (iz short_stage6_entry - 3))
           (T0 short_param * (1 + z_prev2 (lag short_stage6_entry)))
           (rec_HubbleConstant short_param (z_prev2 (lag short_stage6_entry)))
           (fHe short_param)
           (nH0 short_param * cube (fixed_externals 1 0 0) (1 + z short_stage6_entry))
           (z_prev2 (lag short_stage6_entry))
           (energy_injection_rate short_param (z_prev2 (lag short_stage6_entry)))"
proof -
  have h: "4 \<le> iz short_stage6_entry"
    "iz short_stage6_entry \<le> int (length (xe_output short_stage6_entry))"
    "iz short_stage6_entry \<le> int (length (Tm_output short_stage6_entry))"
    by (simp_all add: short_stage6_entry_def)
  then have "3 \<le> iz short_stage6_entry" by simp
  with h show ?thesis
    using seeding_at_stage_entry [of "fixed_externals 1 0 0" short_param short_stage6_entry]
    by blast
qed

subsection \<open>Termination and the order of the writes\<close>



end
